theory Spec2Isabelle
  imports Main "HOL-Library.Word"
begin

section \<open>Lazarus Core: data model\<close>

text \<open>
  A shallow embedding of \<^verbatim>\<open>lz_core/lz_core.c\<close> and of
  \<^verbatim>\<open>lz_common/lz_crypto/lz_ecdsa.c\<close>. The target is a 32-bit Cortex-M33: the code
  casts pointers to \<^verbatim>\<open>uint32_t\<close>, so addresses and \<^verbatim>\<open>uint32_t\<close>
  values are 32-bit words and byte buffers are lists of 8-bit words.
\<close>

type_synonym u8 = "8 word"
type_synonym u32 = "32 word"
type_synonym bytes = "u8 list"

text \<open>
  \<^verbatim>\<open>LZ_RESULT\<close> is a C enumeration, so a function returning it returns an
  \<^verbatim>\<open>int\<close>. Its enumerators are declared in a header outside the sources read
  here; their values are fields of the environment below.
\<close>

type_synonym LZ_RESULT = int

text \<open>\<^verbatim>\<open>lz_ecc_keypair\<close> is an \<^verbatim>\<open>mbedtls_pk_context\<close>
  (\<^verbatim>\<open>lz_ecdsa_sign\<close> hands one to \<^verbatim>\<open>mbedtls_pk_sign\<close>); it is
  modelled by the bytes of the structure.\<close>

type_synonym mbedtls_pk_context = bytes
type_synonym lz_ecc_keypair = mbedtls_pk_context

datatype hdr_type_t =
    BOOT_TICKET | DEFERRAL_TICKET | LZ_CORE_UPDATE | LZ_UDOWNLOADER_UPDATE
  | LZ_CPATCHER_UPDATE | APP_UPDATE | DEVICE_ID_REASSOC_RES | CONFIG_UPDATE

datatype boot_mode_t = APP | LZ_UDOWNLOADER | LZ_CPATCHER

record lz_ecc_signature =
  sig :: bytes
  sig_length :: u32

text \<open>\<^verbatim>\<open>lz_auth_hdr_t\<close>: the authenticated header of a staging element,
  \<^verbatim>\<open>hdr->content\<close> and \<^verbatim>\<open>hdr->signature\<close>.\<close>

record lz_auth_hdr_content =
  hdr_magic :: u32
  hdr_elem_type :: hdr_type_t
  payload_size :: u32
  hdr_digest :: bytes
  hdr_nonce :: bytes
  hdr_issue_time :: u32

record lz_auth_hdr_t =
  hdr_content :: lz_auth_hdr_content
  hdr_signature :: lz_ecc_signature

text \<open>\<^verbatim>\<open>lz_img_hdr_t\<close>: the header of an image, \<^verbatim>\<open>image_hdr->hdr.content\<close> and
  \<^verbatim>\<open>image_hdr->hdr.signature\<close>; \<^verbatim>\<open>lz_img_meta_t\<close>: the stored metadata of an
  image.\<close>

record lz_img_hdr_content =
  img_magic :: u32
  img_name :: bytes
  img_version :: u32
  img_issue_time :: u32
  img_size :: u32
  hdr_size :: u32
  img_digest :: bytes

record lz_img_hdr_t =
  img_content :: lz_img_hdr_content
  img_signature :: lz_ecc_signature

record lz_img_meta_t =
  lastVersion :: u32
  last_issue_time :: u32
  meta_magic :: u32

text \<open>
  The staging area \<^verbatim>\<open>lz_staging_area.content\<close> as the code reads it: at a byte
  offset \<open>c\<close> from its start, \<open>hdr_at c\<close> is the \<^verbatim>\<open>lz_auth_hdr_t\<close> that the
  cast \<^verbatim>\<open>(lz_auth_hdr_t *)(((uint32_t)&lz_staging_area.content) + c)\<close> points to, and
  \<open>bytes_at c\<close> is the memory from that offset on. A pointer into the area is its
  offset.
\<close>

record lz_staging_area =
  hdr_at :: "u32 \<Rightarrow> lz_auth_hdr_t"
  bytes_at :: "u32 \<Rightarrow> bytes"

text \<open>
  \<^verbatim>\<open>lz_core_boot_params->info\<close>, the parameters DICEpp hands to Lazarus Core, and
  \<^verbatim>\<open>lz_img_boot_params.info\<close>, the parameters Lazarus Core hands to the next layer.
  Both live in the same RAM region.
\<close>

record lz_core_boot_params_info =
  bp_magic :: u32
  bp_initial_boot :: bool
  bp_cdi_prime :: bytes
  bp_static_symm :: bytes
  bp_dev_uuid :: bytes
  bp_core_auth :: bytes
  bp_cur_nonce :: bytes
  bp_next_nonce :: bytes

record lz_img_boot_params_info =
  alias_id_keypair_pub :: bytes
  alias_id_keypair_priv :: bytes
  dev_uuid :: bytes
  next_nonce :: bytes
  cur_nonce :: bytes
  dev_auth :: bytes
  dev_reassociation_necessary :: bool
  firmware_update_necessary :: bool
  nw_data :: bytes
  magic :: u32

text \<open>An image in flash: its header and its code, each with the address the linker
  gives it.\<close>

record lz_image =
  boot_image_hdr_addr :: u32
  boot_image_hdr :: lz_img_hdr_t
  boot_image_code_addr :: u32
  boot_image_code :: bytes

text \<open>
  The memory \<^verbatim>\<open>lz_core_run\<close> works on. \<open>lz_img_boot_params\<close> is \<open>None\<close> as long
  as the shared RAM region still holds the parameters of Lazarus Core, and the next
  layer's parameters once they are written. Of the data store, the fields that the
  functions modelled here read are named; \<open>lz_data_store_rest\<close> stands for the others
  (the stored DeviceID public key, the certificate bag, \<^verbatim>\<open>static_symm_info\<close>).
  \<open>nw_info_magic\<close> is \<^verbatim>\<open>nw_info.magic\<close> and \<open>nw_info\<close> the bytes of the whole
  structure. \<open>awdt\<close> is the timeout the watchdog is armed with, if it is.
\<close>

record lz_state =
  lz_core_boot_params :: lz_core_boot_params_info
  lz_img_boot_params :: "lz_img_boot_params_info option"
  lz_img_cert_store :: bytes
  staging_area :: lz_staging_area
  ta_magic :: u32
  ta_management_pub_key :: bytes
  ta_code_auth_pub_key :: bytes
  app_meta :: lz_img_meta_t
  ud_meta :: lz_img_meta_t
  um_meta :: lz_img_meta_t
  nw_info_magic :: u32
  nw_info :: bytes
  lz_data_store_rest :: bytes
  lz_app :: lz_image
  lz_udownloader :: lz_image
  lz_cpatcher :: lz_image
  lz_core_hdr_magic :: u32
  awdt :: "u32 option"
  rng_initialized :: bool

text \<open>The local variables of \<^verbatim>\<open>lz_core_run\<close> that hold keys, digests and the
  deferral time, and what the function returns: a boot mode, or \<^verbatim>\<open>false\<close> on two
  of its error paths.\<close>

record lz_core_run_locals =
  l_initial_boot :: bool
  l_lz_dev_id_keypair :: lz_ecc_keypair
  l_next_layer_digest :: bytes
  l_deferral_time :: u32
  l_pem :: bytes
  l_digest :: bytes
  l_lz_alias_id_keypair :: lz_ecc_keypair

datatype lz_core_run_return = Return_boot_mode boot_mode_t | Return_false

text \<open>
  Modelled from the spec: \<^verbatim>\<open>lz_error_handler\<close> is not among the sources; the spec
  calls it an unrecoverable halt, so a call of it ends the run.
  A run of \<^verbatim>\<open>lz_core_run\<close> ends in \<^verbatim>\<open>lz_error_handler()\<close>, in the endless loop
  that waits for provisioning, or by returning, with the locals and the memory as they
  are then.
\<close>

datatype lz_core_run_result =
    Error_handler lz_state
  | Wait_for_provisioning lz_state
  | Returned lz_core_run_return lz_core_run_locals lz_state

definition SHA256_DIGEST_LENGTH :: nat where
  "SHA256_DIGEST_LENGTH = 32"

text \<open>
  The environment: what the code uses and the sources read here do not define.
  \<^item> The constants and \<^verbatim>\<open>sizeof\<close> values of the missing headers.
    \<^verbatim>\<open>LEN_NONCE\<close> is the size of every nonce array and \<^verbatim>\<open>LEN_UUID_V4_BIN\<close> that of
    every \<^verbatim>\<open>dev_uuid\<close>.
  \<^item> The primitives of the crypto library (mbedTLS and its wrappers). An
    \<^verbatim>\<open>int\<close>-returning primitive with an output buffer returns its code and what
    it left in the buffer; a primitive whose result the code ignores maps the buffer
    before to the buffer after.
  \<^item> The layout of the two header structures, as the bytes of their \<open>content\<close>.
  \<^item> \<^verbatim>\<open>lz_get_staging_hdr(type, &hdr, nonce)\<close>: its result and the header pointer it
    stores, as an offset into the staging area.
  \<^item> The operations of \<^verbatim>\<open>lz_update.c\<close> on the memory.
  \<^item> The helpers of \<^verbatim>\<open>lz_core.c\<close> that rewrite flash regions or build certificates
    (\<^verbatim>\<open>lz_core_erase_lz_data_store\<close>, \<^verbatim>\<open>lz_core_erase_staging_area\<close>,
    \<^verbatim>\<open>lz_core_store_static_symm\<close>, \<^verbatim>\<open>lz_core_wipe_static_symm\<close>,
    \<^verbatim>\<open>lz_core_is_updated\<close>, \<^verbatim>\<open>lz_core_create_device_id_csr\<close>,
    \<^verbatim>\<open>lz_core_create_cert_store\<close>): \<^verbatim>\<open>lz_core_run\<close> depends on them through
    their return codes and the memory they leave, so they are operations of the
    environment too, and every theorem below holds whatever they do.
\<close>

record lz_env =
  LZ_MAGIC :: u32
  LZ_SUCCESS :: LZ_RESULT
  LZ_ERROR :: LZ_RESULT
  LZ_NOT_FOUND :: LZ_RESULT
  LEN_NONCE :: nat
  MAX_PUB_ECP_PEM_BYTES :: nat
  lz_sha256 :: "bytes \<Rightarrow> int \<times> bytes"
  mbedtls_pk_parse_public_key :: "bytes \<Rightarrow> int \<times> mbedtls_pk_context"
  mbedtls_pk_verify :: "mbedtls_pk_context \<Rightarrow> bytes \<Rightarrow> bytes \<Rightarrow> int"
  auth_hdr_content_bytes :: "lz_auth_hdr_content \<Rightarrow> bytes"
  img_hdr_content_bytes :: "lz_img_hdr_content \<Rightarrow> bytes"
  sizeof_lz_auth_hdr_t :: u32
  sizeof_staging_area_content :: u32
  lz_get_staging_hdr :: "lz_staging_area \<Rightarrow> hdr_type_t \<Rightarrow> bytes \<Rightarrow> LZ_RESULT \<times> u32"
  lz_derive_ecc_keypair :: "bytes \<Rightarrow> int \<times> lz_ecc_keypair"
  LEN_UUID_V4_BIN :: nat
  sizeof_lz_ecc_pub_key_pem :: nat
  sizeof_lz_ecc_priv_key_pem :: nat
  sizeof_dev_auth :: nat
  sizeof_nw_data :: nat
  DEFAULT_WDT_TIMOUT_s :: u32
  lz_pub_key_to_pem :: "lz_ecc_keypair \<Rightarrow> bytes \<Rightarrow> bytes"
  lz_priv_key_to_pem :: "lz_ecc_keypair \<Rightarrow> bytes \<Rightarrow> bytes"
  lz_hmac_sha256 :: "bytes \<Rightarrow> bytes \<Rightarrow> bytes \<Rightarrow> int \<times> bytes"
  lz_sha256_two_parts :: "bytes \<Rightarrow> bytes \<Rightarrow> int \<times> bytes"
  lz_std_updates_pending :: "lz_state \<Rightarrow> LZ_RESULT"
  lz_apply_updates :: "lz_state \<Rightarrow> lz_state"
  lz_update_img_meta_data :: "lz_state \<Rightarrow> LZ_RESULT \<times> lz_state"
  lz_verified_core_update_pending :: "lz_state \<Rightarrow> LZ_RESULT"
  lz_core_erase_lz_data_store :: "lz_state \<Rightarrow> LZ_RESULT \<times> lz_state"
  lz_core_erase_staging_area :: "lz_state \<Rightarrow> LZ_RESULT \<times> lz_state"
  lz_core_store_static_symm :: "lz_state \<Rightarrow> LZ_RESULT \<times> lz_state"
  lz_core_wipe_static_symm :: "lz_state \<Rightarrow> LZ_RESULT \<times> lz_state"
  lz_core_is_updated :: "lz_ecc_keypair \<Rightarrow> lz_state \<Rightarrow> bool"
  lz_core_create_device_id_csr :: "bool \<Rightarrow> lz_ecc_keypair \<Rightarrow> lz_state \<Rightarrow> LZ_RESULT \<times> lz_state"
  lz_core_create_cert_store ::
    "boot_mode_t \<Rightarrow> lz_ecc_keypair \<Rightarrow> lz_ecc_keypair \<Rightarrow> lz_state \<Rightarrow> LZ_RESULT \<times> lz_state"

section \<open>C library helpers\<close>

text \<open>\<^verbatim>\<open>memcmp(a, b, n)\<close> over the first \<open>n\<close> bytes of two buffers. The code
  only tests the result against 0, so the sign of a difference is not modelled.\<close>

definition memcmp :: "bytes \<Rightarrow> bytes \<Rightarrow> nat \<Rightarrow> int" where
  "memcmp a b n = (if take n a = take n b then 0 else 1)"

text \<open>\<^verbatim>\<open>memcpy(dst, src, n)\<close>: the destination buffer afterwards.\<close>

definition memcpy :: "bytes \<Rightarrow> bytes \<Rightarrow> nat \<Rightarrow> bytes" where
  "memcpy dst src n = take n src @ drop n dst"

text \<open>\<^verbatim>\<open>secure_zero_memory(buf, n)\<close>: the buffer afterwards.\<close>

definition secure_zero_memory :: "bytes \<Rightarrow> nat \<Rightarrow> bytes" where
  "secure_zero_memory buf n = replicate n 0 @ drop n buf"

text \<open>The value of \<^verbatim>\<open>false\<close> where the code returns it from a function whose
  return type is an enumeration.\<close>

definition C_false :: int where
  "C_false = 0"

text \<open>\<^verbatim>\<open>sizeof\<close> of a pointer on the 32-bit target.\<close>

definition sizeof_pointer :: nat where
  "sizeof_pointer = 4"

text \<open>\<^verbatim>\<open>strnlen(s, maxlen)\<close>.\<close>

definition strnlen :: "bytes \<Rightarrow> nat \<Rightarrow> nat" where
  "strnlen s maxlen = length (takeWhile (\<lambda>c. c \<noteq> 0) (take maxlen s))"

section \<open>ECDSA verification (lz\_ecdsa.c)\<close>

text \<open>
  \<^verbatim>\<open>lz_ecdsa_verify_pub_pem(data, data_length, key, sig)\<close>. The macro
  \<^verbatim>\<open>CHECK(call, msg)\<close> comes from \<^verbatim>\<open>lz_crypto_common.h\<close>; as the
  function uses it (\<^verbatim>\<open>int re = 0\<close>, the label \<^verbatim>\<open>clean\<close>,
  \<^verbatim>\<open>return re\<close>) it stores the call's result in \<^verbatim>\<open>re\<close> and jumps to
  \<^verbatim>\<open>clean\<close> when that is not 0. \<open>data\<close> is the \<^verbatim>\<open>data_length\<close> bytes
  at the pointer.
\<close>

definition lz_ecdsa_verify_pub_pem ::
  "lz_env \<Rightarrow> bytes \<Rightarrow> bytes \<Rightarrow> lz_ecc_signature \<Rightarrow> int" where
  "lz_ecdsa_verify_pub_pem env data key sg =
    (case mbedtls_pk_parse_public_key env
            (take (strnlen key (MAX_PUB_ECP_PEM_BYTES env - 1) + 1) key) of
       (re, pk_context) \<Rightarrow>
         if re \<noteq> 0 then re
         else (case lz_sha256 env data of
           (re, hash) \<Rightarrow>
             if re \<noteq> 0 then re
             else mbedtls_pk_verify env pk_context (take SHA256_DIGEST_LENGTH hash)
                    (take (unat (sig_length sg)) (sig sg))))"

section \<open>Staging element headers (lz\_core.c)\<close>

text \<open>
  \<^verbatim>\<open>lz_core_verify_staging_elem_hdr_sig(hdr, payload)\<close>, with the management public
  key of the trust anchors as an argument. \<open>payload\<close> is the memory at the pointer; the
  code hashes its first \<^verbatim>\<open>payload_size\<close> bytes.
\<close>

definition lz_core_verify_staging_elem_hdr_sig ::
  "lz_env \<Rightarrow> bytes \<Rightarrow> lz_auth_hdr_t \<Rightarrow> bytes \<Rightarrow> LZ_RESULT" where
  "lz_core_verify_staging_elem_hdr_sig env management_pub_key hdr payload =
    (case lz_sha256 env (take (unat (payload_size (hdr_content hdr))) payload) of
       (re, digest) \<Rightarrow>
         if re \<noteq> 0 then LZ_ERROR env
         else if memcmp digest (hdr_digest (hdr_content hdr)) SHA256_DIGEST_LENGTH \<noteq> 0
           then LZ_ERROR env
         else if lz_ecdsa_verify_pub_pem env
                   (auth_hdr_content_bytes env (hdr_content hdr))
                   management_pub_key (hdr_signature hdr) \<noteq> 0
           then LZ_ERROR env
         else LZ_SUCCESS env)"

text \<open>\<^verbatim>\<open>lz_core_verify_staging_elem_hdr(hdr, payload, nonce)\<close>.\<close>

definition lz_core_verify_staging_elem_hdr ::
  "lz_env \<Rightarrow> bytes \<Rightarrow> lz_auth_hdr_t \<Rightarrow> bytes \<Rightarrow> bytes \<Rightarrow> LZ_RESULT" where
  "lz_core_verify_staging_elem_hdr env management_pub_key hdr payload nonce =
    (if hdr_magic (hdr_content hdr) \<noteq> LZ_MAGIC env then LZ_ERROR env
     else if payload_size (hdr_content hdr) = 0 then LZ_ERROR env
     else if memcmp (hdr_nonce (hdr_content hdr)) nonce (LEN_NONCE env) \<noteq> 0
       then LZ_ERROR env
     else if lz_core_verify_staging_elem_hdr_sig env management_pub_key hdr payload
               \<noteq> LZ_SUCCESS env
       then LZ_ERROR env
     else LZ_SUCCESS env)"

section \<open>Image verification (lz\_core.c)\<close>

text \<open>
  \<^verbatim>\<open>lz_core_verify_image(image_hdr, image_code, image_meta, image_digest_out)\<close>, with
  the code-signing key of the trust anchors as an argument. The header and the code come
  with their addresses, which the layout check compares; \<open>image_code\<close> is the memory at
  the code pointer. \<open>image_digest_out\<close> is \<open>None\<close> for a \<^verbatim>\<open>NULL\<close> pointer and
  otherwise the buffer it points to; the buffer is returned as the call leaves it.
  The branch on the metadata magic returns \<^verbatim>\<open>false\<close>. Debug output
  (\<^verbatim>\<open>dbgprint\<close>, \<^verbatim>\<open>asctime\<close>) is left out.
\<close>

definition lz_core_verify_image ::
  "lz_env \<Rightarrow> bytes \<Rightarrow> u32 \<Rightarrow> lz_img_hdr_t \<Rightarrow> u32 \<Rightarrow> bytes \<Rightarrow> lz_img_meta_t \<Rightarrow>
     bytes option \<Rightarrow> LZ_RESULT \<times> bytes option" where
  "lz_core_verify_image env code_auth_pub_key image_hdr_addr image_hdr image_code_addr
       image_code image_meta image_digest_out =
    (if img_magic (img_content image_hdr) \<noteq> LZ_MAGIC env
       then (LZ_ERROR env, image_digest_out)
     else if \<not> (image_code_addr = image_hdr_addr + hdr_size (img_content image_hdr))
       then (LZ_ERROR env, image_digest_out)
     else (case lz_sha256 env (take (unat (img_size (img_content image_hdr))) image_code) of
       (re, digest) \<Rightarrow>
         if re \<noteq> 0 then (LZ_ERROR env, image_digest_out)
         else if memcmp digest (img_digest (img_content image_hdr)) SHA256_DIGEST_LENGTH \<noteq> 0
           then (LZ_ERROR env, image_digest_out)
         else if lz_ecdsa_verify_pub_pem env
                   (img_hdr_content_bytes env (img_content image_hdr))
                   code_auth_pub_key (img_signature image_hdr) \<noteq> 0
           then (LZ_ERROR env, image_digest_out)
         else if meta_magic image_meta \<noteq> LZ_MAGIC env
           then (C_false, image_digest_out)
         else if lastVersion image_meta > img_version (img_content image_hdr) \<or>
                 last_issue_time image_meta > img_issue_time (img_content image_hdr)
           then (LZ_ERROR env, image_digest_out)
         else (LZ_SUCCESS env,
               case image_digest_out of
                 None \<Rightarrow> None
               | Some buf \<Rightarrow> Some (memcpy buf digest SHA256_DIGEST_LENGTH))))"

section \<open>Walking the staging area (lz\_core.c)\<close>

text \<open>
  The loop of \<^verbatim>\<open>lz_get_num_staging_elems\<close>, from a cursor and a count. The cursor is
  a \<^verbatim>\<open>uint32_t\<close> and the count a \<^verbatim>\<open>uint8_t\<close>: both wrap around. The loop
  need not end, so the result is an option and \<open>None\<close> stands for no return.
\<close>

partial_function (option) lz_get_num_staging_elems_loop ::
  "lz_env \<Rightarrow> lz_staging_area \<Rightarrow> u32 \<Rightarrow> u8 \<Rightarrow> u8 option" where
  "lz_get_num_staging_elems_loop env sa cursor num_elements =
    (if cursor < sizeof_staging_area_content env then
       (if hdr_magic (hdr_content (hdr_at sa cursor)) \<noteq> LZ_MAGIC env
          then Some num_elements
        else lz_get_num_staging_elems_loop env sa
               (cursor + (sizeof_lz_auth_hdr_t env
                            + payload_size (hdr_content (hdr_at sa cursor))))
               (num_elements + 1))
     else Some num_elements)"

declare lz_get_num_staging_elems_loop.simps [code]

text \<open>\<^verbatim>\<open>lz_get_num_staging_elems()\<close>: the \<^verbatim>\<open>uint8_t\<close> count is returned as a
  \<^verbatim>\<open>uint32_t\<close>.\<close>

definition lz_get_num_staging_elems :: "lz_env \<Rightarrow> lz_staging_area \<Rightarrow> u32 option" where
  "lz_get_num_staging_elems env sa =
     map_option ucast (lz_get_num_staging_elems_loop env sa 0 0)"

section \<open>AliasID derivation (lz\_core.c)\<close>

text \<open>
  \<^verbatim>\<open>lz_core_derive_alias_id_keypair(digest, lz_alias_id_keypair)\<close>: the seed length is
  \<^verbatim>\<open>sizeof(digest)\<close> and \<^verbatim>\<open>digest\<close> is a parameter of type
  \<^verbatim>\<open>uint8_t *\<close>. The result is the return code and the key pair written.
\<close>

definition lz_core_derive_alias_id_keypair ::
  "lz_env \<Rightarrow> bytes \<Rightarrow> LZ_RESULT \<times> lz_ecc_keypair" where
  "lz_core_derive_alias_id_keypair env digest =
    (case lz_derive_ecc_keypair env (take sizeof_pointer digest) of
       (re, lz_alias_id_keypair) \<Rightarrow>
         if re \<noteq> 0 then (LZ_ERROR env, lz_alias_id_keypair)
         else (LZ_SUCCESS env, lz_alias_id_keypair))"

section \<open>Valid staging elements and the deferral time (lz\_core.c)\<close>

text \<open>\<^verbatim>\<open>lz_has_valid_staging_element(hdr_type)\<close>. The payload pointer is
  \<^verbatim>\<open>((uint8_t *)staging_hdr) + sizeof(lz_auth_hdr_t)\<close>.\<close>

definition lz_has_valid_staging_element :: "lz_env \<Rightarrow> lz_state \<Rightarrow> hdr_type_t \<Rightarrow> LZ_RESULT" where
  "lz_has_valid_staging_element env s hdr_type =
    (case lz_get_staging_hdr env (staging_area s) hdr_type
            (bp_cur_nonce (lz_core_boot_params s)) of
       (result, staging_hdr) \<Rightarrow>
         if result = LZ_SUCCESS env then
           (if lz_core_verify_staging_elem_hdr env (ta_management_pub_key s)
                 (hdr_at (staging_area s) staging_hdr)
                 (bytes_at (staging_area s) (staging_hdr + sizeof_lz_auth_hdr_t env))
                 (bp_cur_nonce (lz_core_boot_params s)) \<noteq> LZ_SUCCESS env
              then LZ_ERROR env
            else result)
         else result)"

text \<open>\<^verbatim>\<open>lz_get_staging_elem_content(elem_type, content)\<close>: the return code and the
  pointer stored in \<^verbatim>\<open>*content\<close>, \<open>None\<close> for \<^verbatim>\<open>NULL\<close>.\<close>

definition lz_get_staging_elem_content ::
  "lz_env \<Rightarrow> lz_state \<Rightarrow> hdr_type_t \<Rightarrow> LZ_RESULT \<times> u32 option" where
  "lz_get_staging_elem_content env s elem_type =
    (case lz_get_staging_hdr env (staging_area s) elem_type
            (bp_cur_nonce (lz_core_boot_params s)) of
       (result, hdr) \<Rightarrow>
         if result = LZ_SUCCESS env
           then (LZ_SUCCESS env, Some (hdr + sizeof_lz_auth_hdr_t env))
         else (LZ_NOT_FOUND env, None))"

text \<open>
  \<^verbatim>\<open>lz_get_deferral_time(uint32_t *deferral_time)\<close>. The second argument of the
  model is the caller's \<^verbatim>\<open>uint32_t\<close> that the parameter points to; the result is
  the return code and that variable after the call. The function hands
  \<^verbatim>\<open>(uint8_t **)&deferral_time\<close> to \<^verbatim>\<open>lz_get_staging_elem_content\<close>, the address of
  its own parameter, so the content pointer is stored in the parameter and nothing is
  stored in the caller's variable.
\<close>

definition lz_get_deferral_time :: "lz_env \<Rightarrow> lz_state \<Rightarrow> u32 \<Rightarrow> LZ_RESULT \<times> u32" where
  "lz_get_deferral_time env s caller_deferral_time =
    (let result = lz_has_valid_staging_element env s DEFERRAL_TICKET in
     if result \<noteq> LZ_SUCCESS env then (result, caller_deferral_time)
     else (case lz_get_staging_elem_content env s DEFERRAL_TICKET of
       (result, deferral_time) \<Rightarrow>
         if result \<noteq> LZ_SUCCESS env then (result, caller_deferral_time)
         else (LZ_SUCCESS env, caller_deferral_time)))"

section \<open>Verifying the next layer (lz\_core.c)\<close>

text \<open>\<^verbatim>\<open>lz_core_get_next_layer_addrs(boot_mode, &hdr, &code, &meta)\<close>. The
  \<^verbatim>\<open>default\<close> branch of its \<^verbatim>\<open>switch\<close> is for a value that is none of the three
  boot modes.\<close>

definition lz_core_get_next_layer_addrs ::
  "lz_env \<Rightarrow> lz_state \<Rightarrow> boot_mode_t \<Rightarrow> LZ_RESULT \<times> lz_image \<times> lz_img_meta_t" where
  "lz_core_get_next_layer_addrs env s boot_mode =
    (case boot_mode of
       APP \<Rightarrow> (LZ_SUCCESS env, lz_app s, app_meta s)
     | LZ_CPATCHER \<Rightarrow> (LZ_SUCCESS env, lz_cpatcher s, um_meta s)
     | LZ_UDOWNLOADER \<Rightarrow> (LZ_SUCCESS env, lz_udownloader s, ud_meta s))"

text \<open>\<^verbatim>\<open>lz_core_verify_next_layer(boot_mode, next_layer_digest)\<close>: the return code and
  the caller's digest buffer after the call.\<close>

definition lz_core_verify_next_layer ::
  "lz_env \<Rightarrow> lz_state \<Rightarrow> boot_mode_t \<Rightarrow> bytes \<Rightarrow> LZ_RESULT \<times> bytes" where
  "lz_core_verify_next_layer env s boot_mode next_layer_digest =
    (case lz_core_get_next_layer_addrs env s boot_mode of
       (result, img, img_meta) \<Rightarrow>
         if result \<noteq> LZ_SUCCESS env then (result, next_layer_digest)
         else (case lz_core_verify_image env (ta_code_auth_pub_key s)
                      (boot_image_hdr_addr img) (boot_image_hdr img) (boot_image_code_addr img)
                      (boot_image_code img) img_meta (Some next_layer_digest) of
           (result, out) \<Rightarrow>
             (result, case out of None \<Rightarrow> next_layer_digest | Some buf \<Rightarrow> buf)))"

section \<open>Parameters for the next layer (lz\_core.c)\<close>

text \<open>\<^verbatim>\<open>lz_core_derive_dev_auth(dev_auth, dev_auth_length, lz_dev_id)\<close>: the return code
  and the \<^verbatim>\<open>dev_auth\<close> buffer after the call.\<close>

definition lz_core_derive_dev_auth ::
  "lz_env \<Rightarrow> lz_state \<Rightarrow> bytes \<Rightarrow> nat \<Rightarrow> lz_ecc_keypair \<Rightarrow> LZ_RESULT \<times> bytes" where
  "lz_core_derive_dev_auth env s dev_auth_buf dev_auth_length lz_dev_id =
    (if dev_auth_length < SHA256_DIGEST_LENGTH then (LZ_ERROR env, dev_auth_buf)
     else
       let zeroed = replicate (MAX_PUB_ECP_PEM_BYTES env + LEN_UUID_V4_BIN env) 0;
           with_pem = lz_pub_key_to_pem env lz_dev_id (take (sizeof_lz_ecc_pub_key_pem env) zeroed)
                        @ drop (sizeof_lz_ecc_pub_key_pem env) zeroed;
           digest_dev_auth = take (MAX_PUB_ECP_PEM_BYTES env) with_pem
                        @ memcpy (drop (MAX_PUB_ECP_PEM_BYTES env) with_pem)
                            (bp_dev_uuid (lz_core_boot_params s)) (LEN_UUID_V4_BIN env)
       in (case lz_hmac_sha256 env dev_auth_buf digest_dev_auth
                  (bp_core_auth (lz_core_boot_params s)) of
             (re, out) \<Rightarrow> if re \<noteq> 0 then (LZ_ERROR env, out) else (LZ_SUCCESS env, out)))"

text \<open>The initialiser \<^verbatim>\<open>lz_img_boot_params_info_t img_boot_params_info_cpy = { 0 }\<close>.\<close>

definition img_boot_params_info_zero :: "lz_env \<Rightarrow> lz_img_boot_params_info" where
  "img_boot_params_info_zero env =
    \<lparr> alias_id_keypair_pub = replicate (sizeof_lz_ecc_pub_key_pem env) 0,
      alias_id_keypair_priv = replicate (sizeof_lz_ecc_priv_key_pem env) 0,
      dev_uuid = replicate (LEN_UUID_V4_BIN env) 0,
      next_nonce = replicate (LEN_NONCE env) 0,
      cur_nonce = replicate (LEN_NONCE env) 0,
      dev_auth = replicate (sizeof_dev_auth env) 0,
      dev_reassociation_necessary = False,
      firmware_update_necessary = False,
      nw_data = replicate (sizeof_nw_data env) 0,
      magic = 0 \<rparr>"

text \<open>
  \<^verbatim>\<open>lz_core_provide_params_ram\<close>, in the source's three parts: the copy built on the
  stack up to the need-to-know block, that block, and the rest (network data, magic,
  certificate store, and the rewrite of the shared RAM region).
\<close>

definition provide_params_common ::
  "lz_env \<Rightarrow> lz_state \<Rightarrow> boot_mode_t \<Rightarrow> lz_ecc_keypair \<Rightarrow> lz_img_boot_params_info" where
  "provide_params_common env s boot_mode lz_alias_id_keypair =
    (let cpy = img_boot_params_info_zero env;
         cpy = cpy\<lparr> alias_id_keypair_pub :=
                     lz_pub_key_to_pem env lz_alias_id_keypair (alias_id_keypair_pub cpy) \<rparr>;
         cpy = cpy\<lparr> alias_id_keypair_priv :=
                     lz_priv_key_to_pem env lz_alias_id_keypair (alias_id_keypair_priv cpy) \<rparr>
     in if boot_mode = LZ_UDOWNLOADER \<or> boot_mode = APP then
          cpy\<lparr> dev_uuid := memcpy (dev_uuid cpy) (bp_dev_uuid (lz_core_boot_params s))
                              (LEN_UUID_V4_BIN env),
               next_nonce := memcpy (next_nonce cpy) (bp_next_nonce (lz_core_boot_params s))
                              (LEN_NONCE env) \<rparr>
        else cpy)"

definition provide_params_finish ::
  "lz_env \<Rightarrow> lz_state \<Rightarrow> boot_mode_t \<Rightarrow> lz_ecc_keypair \<Rightarrow> lz_ecc_keypair \<Rightarrow>
     lz_img_boot_params_info \<Rightarrow> LZ_RESULT \<times> lz_state" where
  "provide_params_finish env s boot_mode lz_alias_id_keypair lz_dev_id_keypair cpy =
    (let cpy = (if boot_mode = LZ_UDOWNLOADER \<and> nw_info_magic s = LZ_MAGIC env
                then cpy\<lparr> nw_data := memcpy (nw_data cpy) (nw_info s) (sizeof_nw_data env) \<rparr>
                else cpy);
         cpy = cpy\<lparr> magic := LZ_MAGIC env \<rparr>
     in (case lz_core_create_cert_store env boot_mode lz_alias_id_keypair lz_dev_id_keypair s of
           (result, s') \<Rightarrow>
             if result \<noteq> LZ_SUCCESS env then (LZ_ERROR env, s')
             else (LZ_SUCCESS env, s'\<lparr> lz_img_boot_params := Some cpy \<rparr>)))"

definition lz_core_provide_params_ram ::
  "lz_env \<Rightarrow> lz_state \<Rightarrow> boot_mode_t \<Rightarrow> bool \<Rightarrow> bool \<Rightarrow> lz_ecc_keypair \<Rightarrow> lz_ecc_keypair \<Rightarrow>
     LZ_RESULT \<times> lz_state" where
  "lz_core_provide_params_ram env s boot_mode lz_core_updated firmware_update_necessary'
       lz_alias_id_keypair lz_dev_id_keypair =
    (let cpy = provide_params_common env s boot_mode lz_alias_id_keypair in
     if boot_mode = LZ_UDOWNLOADER \<or> boot_mode = LZ_CPATCHER then
       (let cpy = cpy\<lparr> dev_uuid := memcpy (dev_uuid cpy) (bp_dev_uuid (lz_core_boot_params s))
                                      (LEN_UUID_V4_BIN env),
                       cur_nonce := memcpy (cur_nonce cpy) (bp_cur_nonce (lz_core_boot_params s))
                                      (LEN_NONCE env) \<rparr>
        in (case lz_core_derive_dev_auth env s (dev_auth cpy) (sizeof_dev_auth env)
                   lz_dev_id_keypair of
              (result, dev_auth_buf) \<Rightarrow>
                if result \<noteq> LZ_SUCCESS env then (LZ_ERROR env, s)
                else provide_params_finish env s boot_mode lz_alias_id_keypair lz_dev_id_keypair
                       (cpy\<lparr> dev_auth := dev_auth_buf,
                             dev_reassociation_necessary := lz_core_updated,
                             firmware_update_necessary := firmware_update_necessary' \<rparr>)))
     else provide_params_finish env s boot_mode lz_alias_id_keypair lz_dev_id_keypair cpy)"

section \<open>The boot sequence (lz\_core.c)\<close>

definition lz_core_boot_params_valid :: "lz_env \<Rightarrow> lz_state \<Rightarrow> bool" where
  "lz_core_boot_params_valid env s \<longleftrightarrow> bp_magic (lz_core_boot_params s) = LZ_MAGIC env"

definition lz_core_is_initial_boot :: "lz_state \<Rightarrow> bool" where
  "lz_core_is_initial_boot s = bp_initial_boot (lz_core_boot_params s)"

text \<open>\<^verbatim>\<open>lz_core_derive_device_id(device_id_keypair)\<close>: the return code and the key pair
  written.\<close>

definition lz_core_derive_device_id :: "lz_env \<Rightarrow> lz_state \<Rightarrow> LZ_RESULT \<times> lz_ecc_keypair" where
  "lz_core_derive_device_id env s =
    (case lz_derive_ecc_keypair env (bp_cdi_prime (lz_core_boot_params s)) of
       (re, device_id_keypair) \<Rightarrow>
         if re \<noteq> 0 then (LZ_ERROR env, device_id_keypair)
         else (LZ_SUCCESS env, device_id_keypair))"

definition lz_core_is_provisioning_complete :: "lz_env \<Rightarrow> lz_state \<Rightarrow> bool" where
  "lz_core_is_provisioning_complete env s \<longleftrightarrow>
     ta_magic s = LZ_MAGIC env \<and>
     img_magic (img_content (boot_image_hdr (lz_udownloader s))) = LZ_MAGIC env \<and>
     img_magic (img_content (boot_image_hdr (lz_cpatcher s))) = LZ_MAGIC env \<and>
     lz_core_hdr_magic s = LZ_MAGIC env"

text \<open>
  \<^verbatim>\<open>lz_core_run\<close>, lines 75 to 113: the first-boot branch and the branch of every
  later boot. \<open>Inl\<close> is the end of the run, \<open>Inr\<close> the memory to go on with.
\<close>

definition lz_core_run_first_boot :: "lz_env \<Rightarrow> lz_state \<Rightarrow> lz_core_run_result + lz_state" where
  "lz_core_run_first_boot env s =
    (case lz_core_erase_lz_data_store env s of (r1, s1) \<Rightarrow>
       if r1 \<noteq> LZ_SUCCESS env then Inl (Error_handler s1)
       else (case lz_core_erase_staging_area env s1 of (r2, s2) \<Rightarrow>
         if r2 \<noteq> LZ_SUCCESS env then Inl (Error_handler s2)
         else (case lz_core_store_static_symm env s2 of (r3, s3) \<Rightarrow>
           if r3 \<noteq> LZ_SUCCESS env then Inl (Error_handler s3)
           else (case lz_update_img_meta_data env s3 of (r4, s4) \<Rightarrow>
             if r4 \<noteq> LZ_SUCCESS env then Inl (Error_handler s4)
             else Inr s4))))"

definition lz_core_run_later_boot :: "lz_env \<Rightarrow> lz_state \<Rightarrow> lz_core_run_result + lz_state" where
  "lz_core_run_later_boot env s =
    (case lz_core_wipe_static_symm env s of (r, s1) \<Rightarrow>
       if r \<noteq> LZ_SUCCESS env then Inl (Error_handler s1) else Inr s1)"

text \<open>\<^verbatim>\<open>lz_core_run\<close>, lines 60 to 144: up to the end of the provisioning check. The
  result to go on with is the locals, \<^verbatim>\<open>lz_core_updated\<close> and the memory.\<close>

definition lz_core_run_setup ::
  "lz_env \<Rightarrow> lz_core_run_locals \<Rightarrow> lz_state \<Rightarrow>
     lz_core_run_result + (lz_core_run_locals \<times> bool \<times> lz_state)" where
  "lz_core_run_setup env l s =
    (if \<not> lz_core_boot_params_valid env s then Inl (Error_handler s)
     else (case lz_core_derive_device_id env s of (r, kp) \<Rightarrow>
       if r \<noteq> LZ_SUCCESS env then Inl (Error_handler s)
       else
         let l = l\<lparr> l_lz_dev_id_keypair := kp, l_initial_boot := lz_core_is_initial_boot s \<rparr> in
         (case (if l_initial_boot l then lz_core_run_first_boot env s
                else lz_core_run_later_boot env s) of
            Inl e \<Rightarrow> Inl e
          | Inr s1 \<Rightarrow>
              let lz_core_updated = lz_core_is_updated env (l_lz_dev_id_keypair l) s1 in
              (case (if lz_core_updated then
                       (case lz_core_create_device_id_csr env (l_initial_boot l)
                               (l_lz_dev_id_keypair l) s1 of
                          (r, s2) \<Rightarrow>
                            if r \<noteq> LZ_SUCCESS env then Inl (Error_handler s2) else Inr s2)
                     else Inr s1) of
                 Inl e \<Rightarrow> Inl e
               | Inr s2 \<Rightarrow>
                   if \<not> lz_core_is_provisioning_complete env s2
                     then Inl (Wait_for_provisioning s2)
                   else Inr (l, lz_core_updated, s2)))))"

text \<open>\<^verbatim>\<open>lz_core_run\<close>, lines 150 to 171: update application and the choice of the boot
  mode. \<open>None\<close> is a walk of the staging area that does not return.\<close>

definition lz_core_run_select ::
  "lz_env \<Rightarrow> lz_state \<Rightarrow> (lz_core_run_result + (boot_mode_t \<times> lz_state)) option" where
  "lz_core_run_select env s =
    (case lz_get_num_staging_elems env (staging_area s) of
       None \<Rightarrow> None
     | Some n \<Rightarrow>
         if n = 0 then Some (Inr (LZ_UDOWNLOADER, s))
         else
           let s1 = (if lz_std_updates_pending env s = LZ_SUCCESS env
                     then lz_apply_updates env s else s) in
           (case lz_update_img_meta_data env s1 of (r, s2) \<Rightarrow>
              if r \<noteq> LZ_SUCCESS env then Some (Inl (Error_handler s2))
              else if lz_verified_core_update_pending env s2 = LZ_SUCCESS env
                then Some (Inr (LZ_CPATCHER, s2))
              else if lz_has_valid_staging_element env s2 BOOT_TICKET = LZ_SUCCESS env
                then Some (Inr (APP, s2))
              else Some (Inr (LZ_UDOWNLOADER, s2))))"

text \<open>\<^verbatim>\<open>lz_core_run\<close>, lines 173 to 181: the value of the local \<^verbatim>\<open>deferral_time\<close>
  afterwards, from the value it holds before (it is declared without an initialiser).\<close>

definition lz_core_run_deferral :: "lz_env \<Rightarrow> lz_state \<Rightarrow> u32 \<Rightarrow> u32" where
  "lz_core_run_deferral env s deferral_time0 =
    (case lz_get_deferral_time env s deferral_time0 of
       (r, d) \<Rightarrow> if r \<noteq> LZ_SUCCESS env then DEFAULT_WDT_TIMOUT_s env else d)"

text \<open>\<^verbatim>\<open>lz_core_run\<close>, lines 186 to 199: verification of the next layer. The result to
  go on with is the boot mode, \<^verbatim>\<open>firmware_update_necessary\<close> and the digest buffer.\<close>

definition lz_core_run_verify ::
  "lz_env \<Rightarrow> lz_state \<Rightarrow> boot_mode_t \<Rightarrow> bytes \<Rightarrow>
     lz_core_run_result + (boot_mode_t \<times> bool \<times> bytes)" where
  "lz_core_run_verify env s boot_mode next_layer_digest0 =
    (case lz_core_verify_next_layer env s boot_mode next_layer_digest0 of
       (r, next_layer_digest1) \<Rightarrow>
         if r \<noteq> LZ_SUCCESS env then
           (if boot_mode = APP then Inr (LZ_UDOWNLOADER, True, next_layer_digest1)
            else Inl (Error_handler s))
         else Inr (boot_mode, False, next_layer_digest1))"

text \<open>
  Modelled from the spec: \<^verbatim>\<open>lz_awdt_init\<close> and \<^verbatim>\<open>lzport_rng_deinit\<close> are not among
  the sources; \<^verbatim>\<open>awdt_init(timeout_s)\<close> arms the watchdog with the timeout, and the
  RNG is deinitialised. Neither touches the rest of the memory.
\<close>

definition lz_awdt_init :: "u32 \<Rightarrow> lz_state \<Rightarrow> lz_state" where
  "lz_awdt_init timeout_s s = s\<lparr> awdt := Some timeout_s \<rparr>"

definition lzport_rng_deinit :: "lz_state \<Rightarrow> lz_state" where
  "lzport_rng_deinit s = s\<lparr> rng_initialized := False \<rparr>"

text \<open>\<^verbatim>\<open>lz_core_run\<close>, lines 201 to 244: AliasID, parameters, watchdog, clean-up and
  return.\<close>

definition lz_core_run_handoff ::
  "lz_env \<Rightarrow> lz_core_run_locals \<Rightarrow> bool \<Rightarrow> boot_mode_t \<Rightarrow> bool \<Rightarrow> lz_state \<Rightarrow> lz_core_run_result" where
  "lz_core_run_handoff env l lz_core_updated boot_mode firmware_update_necessary' s =
    (let l = l\<lparr> l_pem := lz_priv_key_to_pem env (l_lz_dev_id_keypair l) (l_pem l) \<rparr> in
     (case lz_sha256_two_parts env (l_next_layer_digest l) (l_pem l) of (re, dg) \<Rightarrow>
        let l = l\<lparr> l_digest := dg \<rparr> in
        if re < 0 then Returned Return_false l s
        else (case lz_core_derive_alias_id_keypair env (l_digest l) of (r, akp) \<Rightarrow>
          let l = l\<lparr> l_lz_alias_id_keypair := akp \<rparr> in
          if r \<noteq> LZ_SUCCESS env then Returned Return_false l s
          else (case lz_core_provide_params_ram env s boot_mode lz_core_updated
                       firmware_update_necessary' (l_lz_alias_id_keypair l)
                       (l_lz_dev_id_keypair l) of
            (r, s1) \<Rightarrow>
              if r \<noteq> LZ_SUCCESS env then Error_handler s1
              else
                let s2 = lz_awdt_init (l_deferral_time l) s1;
                    s3 = lzport_rng_deinit s2;
                    l = l\<lparr> l_initial_boot := False \<rparr>;
                    l = l\<lparr> l_next_layer_digest :=
                             secure_zero_memory (l_next_layer_digest l) SHA256_DIGEST_LENGTH \<rparr>;
                    l = l\<lparr> l_deferral_time := 0 \<rparr>
                in Returned (Return_boot_mode boot_mode) l s3))))"

text \<open>\<^verbatim>\<open>lz_core_run\<close>, lines 173 to 244: everything after the choice of the boot mode.\<close>

definition lz_core_run_boot ::
  "lz_env \<Rightarrow> lz_core_run_locals \<Rightarrow> bool \<Rightarrow> boot_mode_t \<Rightarrow> lz_state \<Rightarrow> lz_core_run_result" where
  "lz_core_run_boot env l lz_core_updated boot_mode s =
    (let l = l\<lparr> l_deferral_time := lz_core_run_deferral env s (l_deferral_time l) \<rparr> in
     (case lz_core_run_verify env s boot_mode (l_next_layer_digest l) of
        Inl e \<Rightarrow> e
      | Inr (boot_mode', firmware_update_necessary', nld) \<Rightarrow>
          lz_core_run_handoff env (l\<lparr> l_next_layer_digest := nld \<rparr>) lz_core_updated
            boot_mode' firmware_update_necessary' s))"

text \<open>\<^verbatim>\<open>lz_core_run()\<close>. The first argument after the environment is what the stack
  holds where the locals are placed: none of them has an initialiser.\<close>

definition lz_core_run ::
  "lz_env \<Rightarrow> lz_core_run_locals \<Rightarrow> lz_state \<Rightarrow> lz_core_run_result option" where
  "lz_core_run env stack s =
    (case lz_core_run_setup env stack s of
       Inl e \<Rightarrow> Some e
     | Inr (l, lz_core_updated, s1) \<Rightarrow>
         (case lz_core_run_select env s1 of
            None \<Rightarrow> None
          | Some (Inl e) \<Rightarrow> Some e
          | Some (Inr (boot_mode, s2)) \<Rightarrow>
              Some (lz_core_run_boot env l lz_core_updated boot_mode s2)))"

section \<open>The checks in the spec's words\<close>

text \<open>
  The spec's conditions for honouring a staging record (data model, invariant 6):
  magic, \<open>payload_size > 0\<close>, digest matches payload, nonce is the expected one,
  signature by the management key. Equality of a digest or a nonce is equality of the
  bytes \<^verbatim>\<open>memcmp\<close> looks at.
\<close>

definition spec_staging_record_ok ::
  "lz_env \<Rightarrow> bytes \<Rightarrow> lz_auth_hdr_t \<Rightarrow> bytes \<Rightarrow> bytes \<Rightarrow> bool" where
  "spec_staging_record_ok env management_pub_key hdr payload expected_nonce \<longleftrightarrow>
     hdr_magic (hdr_content hdr) = LZ_MAGIC env \<and>
     0 < payload_size (hdr_content hdr) \<and>
     (fst (lz_sha256 env (take (unat (payload_size (hdr_content hdr))) payload)) = 0 \<and>
      take SHA256_DIGEST_LENGTH
          (snd (lz_sha256 env (take (unat (payload_size (hdr_content hdr))) payload))) =
        take SHA256_DIGEST_LENGTH (hdr_digest (hdr_content hdr))) \<and>
     take (LEN_NONCE env) (hdr_nonce (hdr_content hdr)) = take (LEN_NONCE env) expected_nonce \<and>
     lz_ecdsa_verify_pub_pem env (auth_hdr_content_bytes env (hdr_content hdr))
       management_pub_key (hdr_signature hdr) = 0"


text \<open>The six steps of the spec's image verifier (section 4.4), in order.\<close>

definition spec_image_ok ::
  "lz_env \<Rightarrow> bytes \<Rightarrow> u32 \<Rightarrow> lz_img_hdr_t \<Rightarrow> u32 \<Rightarrow> bytes \<Rightarrow> lz_img_meta_t \<Rightarrow> bool" where
  "spec_image_ok env code_auth_pub_key hdr_ptr header code_ptr code meta \<longleftrightarrow>
     img_magic (img_content header) = LZ_MAGIC env \<and>
     code_ptr = hdr_ptr + hdr_size (img_content header) \<and>
     (fst (lz_sha256 env (take (unat (img_size (img_content header))) code)) = 0 \<and>
      take SHA256_DIGEST_LENGTH
          (snd (lz_sha256 env (take (unat (img_size (img_content header))) code))) =
        take SHA256_DIGEST_LENGTH (img_digest (img_content header))) \<and>
     lz_ecdsa_verify_pub_pem env (img_hdr_content_bytes env (img_content header))
       code_auth_pub_key (img_signature header) = 0 \<and>
     meta_magic meta = LZ_MAGIC env \<and>
     (lastVersion meta \<le> img_version (img_content header) \<and>
      last_issue_time meta \<le> img_issue_time (img_content header))"

text \<open>The six steps for the image of a boot mode: its header, its code and its stored
  metadata, under the code-signing key of the trust anchors.\<close>

definition spec_next_layer_ok :: "lz_env \<Rightarrow> lz_state \<Rightarrow> boot_mode_t \<Rightarrow> bool" where
  "spec_next_layer_ok env s boot_mode \<longleftrightarrow>
     (case lz_core_get_next_layer_addrs env s boot_mode of
        (result, img, img_meta) \<Rightarrow>
          spec_image_ok env (ta_code_auth_pub_key s) (boot_image_hdr_addr img)
            (boot_image_hdr img) (boot_image_code_addr img) (boot_image_code img) img_meta)"

section \<open>An example device\<close>

text \<open>
  A small environment and memory on which the definitions above can be run: toy
  instances of the primitives (the \<open>hash\<close> of a buffer is its zero-padded prefix, a
  signature is the key followed by the hash, a key pair is its seed), the enumerators
  \<open>0\<close>, \<open>-1\<close>, \<open>-2\<close>, and a staging area with a boot ticket at offset 0 and a
  deferral ticket after it. The theorems below hold for every environment; the example
  shows that their hypotheses can be met.
\<close>

definition ex_sha256 :: "bytes \<Rightarrow> int \<times> bytes" where
  "ex_sha256 data = (0, take 32 (data @ replicate 32 0))"

definition ex_get_staging_hdr :: "lz_staging_area \<Rightarrow> hdr_type_t \<Rightarrow> bytes \<Rightarrow> LZ_RESULT \<times> u32" where
  "ex_get_staging_hdr sa t n =
    (case filter (\<lambda>c. hdr_elem_type (hdr_content (hdr_at sa c)) = t \<and>
                       hdr_nonce (hdr_content (hdr_at sa c)) = n) [0, 12] of
       [] \<Rightarrow> (-2, 0)
     | c # _ \<Rightarrow> (0, c))"

definition ex_env :: lz_env where
  "ex_env =
    \<lparr> LZ_MAGIC = 0x4C5A, LZ_SUCCESS = 0, LZ_ERROR = -1, LZ_NOT_FOUND = -2,
      LEN_NONCE = 16, MAX_PUB_ECP_PEM_BYTES = 8,
      lz_sha256 = ex_sha256,
      mbedtls_pk_parse_public_key = (\<lambda>key. (0, key)),
      mbedtls_pk_verify = (\<lambda>pk hash sg. if sg = pk @ hash then 0 else -1),
      auth_hdr_content_bytes = (\<lambda>c. hdr_nonce c @ hdr_digest c),
      img_hdr_content_bytes = (\<lambda>c. img_digest c),
      sizeof_lz_auth_hdr_t = 8,
      sizeof_staging_area_content = 64,
      lz_get_staging_hdr = ex_get_staging_hdr,
      lz_derive_ecc_keypair = (\<lambda>seed. (0, seed)),
      LEN_UUID_V4_BIN = 16,
      sizeof_lz_ecc_pub_key_pem = 8,
      sizeof_lz_ecc_priv_key_pem = 8,
      sizeof_dev_auth = 32,
      sizeof_nw_data = 4,
      DEFAULT_WDT_TIMOUT_s = 30,
      lz_pub_key_to_pem = (\<lambda>kp buf. memcpy buf (map (\<lambda>b. b + 1) kp) 4),
      lz_priv_key_to_pem = (\<lambda>kp buf. memcpy buf kp 4),
      lz_hmac_sha256 = (\<lambda>out data key. (0, take 32 (key @ data @ replicate 32 0))),
      lz_sha256_two_parts = (\<lambda>a b. (0, take 32 (b @ a))),
      lz_std_updates_pending = (\<lambda>s. -2),
      lz_apply_updates = (\<lambda>s. s),
      lz_update_img_meta_data = (\<lambda>s. (0, s)),
      lz_verified_core_update_pending = (\<lambda>s. -2),
      lz_core_erase_lz_data_store = (\<lambda>s. (0, s)),
      lz_core_erase_staging_area = (\<lambda>s. (0, s)),
      lz_core_store_static_symm = (\<lambda>s. (0, s)),
      lz_core_wipe_static_symm = (\<lambda>s. (0, s)),
      lz_core_is_updated = (\<lambda>kp s. False),
      lz_core_create_device_id_csr = (\<lambda>first_boot kp s. (0, s)),
      lz_core_create_cert_store = (\<lambda>boot_mode alias_kp dev_kp s. (0, s)) \<rparr>"

definition ex_key :: bytes where
  "ex_key = [75, 0]"

definition ex_nonce :: bytes where
  "ex_nonce = replicate 16 7"

text \<open>A ticket of the example: header and signature for a payload, with a nonce.\<close>

definition ex_ticket :: "hdr_type_t \<Rightarrow> bytes \<Rightarrow> bytes \<Rightarrow> lz_auth_hdr_t" where
  "ex_ticket t payload n =
    \<lparr> hdr_content =
        \<lparr> hdr_magic = 0x4C5A, hdr_elem_type = t, payload_size = word_of_nat (length payload),
          hdr_digest = take 32 (payload @ replicate 32 0), hdr_nonce = n,
          hdr_issue_time = 0 \<rparr>,
      hdr_signature =
        \<lparr> sig = ex_key @ take 32 (n @ take 32 (payload @ replicate 32 0) @ replicate 32 0),
          sig_length = 34 \<rparr> \<rparr>"

definition ex_blank_hdr :: lz_auth_hdr_t where
  "ex_blank_hdr =
    \<lparr> hdr_content =
        \<lparr> hdr_magic = 0xFFFFFFFF, hdr_elem_type = BOOT_TICKET, payload_size = 0xFFFFFFFF,
          hdr_digest = replicate 32 255, hdr_nonce = replicate 16 255,
          hdr_issue_time = 0xFFFFFFFF \<rparr>,
      hdr_signature = \<lparr> sig = [], sig_length = 0xFFFFFFFF \<rparr> \<rparr>"

text \<open>The deferral ticket of the example carries 3600 (little-endian) as its payload.\<close>

definition ex_staging_area :: lz_staging_area where
  "ex_staging_area =
    \<lparr> hdr_at = (\<lambda>c. if c = 0 then ex_ticket BOOT_TICKET [1, 0, 0, 0] ex_nonce
                    else if c = 12 then ex_ticket DEFERRAL_TICKET [16, 14, 0, 0] ex_nonce
                    else ex_blank_hdr),
      bytes_at = (\<lambda>c. if c = 8 then [1, 0, 0, 0] @ replicate 12 0 @ [16, 14, 0, 0]
                      else if c = 20 then [16, 14, 0, 0]
                      else []) \<rparr>"

text \<open>An image of the example: code, version and issue time; the header sits at
  \<open>addr\<close> and the code 16 bytes after it.\<close>

definition ex_image :: "u32 \<Rightarrow> bytes \<Rightarrow> u32 \<Rightarrow> u32 \<Rightarrow> lz_image" where
  "ex_image addr code ver issued =
    \<lparr> boot_image_hdr_addr = addr,
      boot_image_hdr =
        \<lparr> img_content =
            \<lparr> img_magic = 0x4C5A, img_name = [], img_version = ver, img_issue_time = issued,
              img_size = word_of_nat (length code), hdr_size = 16,
              img_digest = take 32 (code @ replicate 32 0) \<rparr>,
          img_signature =
            \<lparr> sig = ex_key @ take 32 (code @ replicate 32 0), sig_length = 34 \<rparr> \<rparr>,
      boot_image_code_addr = addr + 16,
      boot_image_code = code \<rparr>"

definition ex_meta :: "u32 \<Rightarrow> u32 \<Rightarrow> lz_img_meta_t" where
  "ex_meta ver issued = \<lparr> lastVersion = ver, last_issue_time = issued, meta_magic = 0x4C5A \<rparr>"

definition ex_state :: lz_state where
  "ex_state =
    \<lparr> lz_core_boot_params =
        \<lparr> bp_magic = 0x4C5A, bp_initial_boot = False, bp_cdi_prime = [1, 2, 3, 4],
          bp_static_symm = replicate 4 0, bp_dev_uuid = replicate 16 5,
          bp_core_auth = [6, 6], bp_cur_nonce = ex_nonce, bp_next_nonce = replicate 16 9 \<rparr>,
      lz_img_boot_params = None,
      lz_img_cert_store = [],
      staging_area = ex_staging_area,
      ta_magic = 0x4C5A,
      ta_management_pub_key = ex_key,
      ta_code_auth_pub_key = ex_key,
      app_meta = ex_meta 0x10000 100,
      ud_meta = ex_meta 0x10000 100,
      um_meta = ex_meta 0x10000 100,
      nw_info_magic = 0x4C5A,
      nw_info = [90, 76, 0, 0],
      lz_data_store_rest = [],
      lz_app = ex_image 0x1000 [10, 11, 12] 0x10002 150,
      lz_udownloader = ex_image 0x2000 [20, 21] 0x10000 100,
      lz_cpatcher = ex_image 0x3000 [30] 0x10000 100,
      lz_core_hdr_magic = 0x4C5A,
      awdt = None,
      rng_initialized = True \<rparr>"

definition ex_stack :: lz_core_run_locals where
  "ex_stack =
    \<lparr> l_initial_boot = True, l_lz_dev_id_keypair = replicate 4 170,
      l_next_layer_digest = replicate 32 170, l_deferral_time = 0xAAAAAAAA,
      l_pem = replicate 8 170, l_digest = replicate 32 170,
      l_lz_alias_id_keypair = replicate 4 170 \<rparr>"

text \<open>A staging area whose first header has the magic and a \<^verbatim>\<open>payload_size\<close> of
  \<open>2^32 - 8\<close>, with 8 the size of a header in the example.\<close>

definition ex_wrapping_staging_area :: lz_staging_area where
  "ex_wrapping_staging_area =
    \<lparr> hdr_at = (\<lambda>c. if c = 0
                    then (ex_ticket BOOT_TICKET [] ex_nonce)
                           \<lparr> hdr_content := (hdr_content (ex_ticket BOOT_TICKET [] ex_nonce))
                                               \<lparr> payload_size := 0xFFFFFFF8 \<rparr> \<rparr>
                    else ex_blank_hdr),
      bytes_at = (\<lambda>c. []) \<rparr>"

text \<open>An App image whose stored metadata was never written (erased flash).\<close>

definition ex_erased_meta :: lz_img_meta_t where
  "ex_erased_meta =
    \<lparr> lastVersion = 0xFFFFFFFF, last_issue_time = 0xFFFFFFFF, meta_magic = 0xFFFFFFFF \<rparr>"

text \<open>The example with an erased staging area.\<close>

definition ex_erased_state :: lz_state where
  "ex_erased_state =
     ex_state\<lparr> staging_area := \<lparr> hdr_at = (\<lambda>c. ex_blank_hdr), bytes_at = (\<lambda>c. []) \<rparr> \<rparr>"

text \<open>The example with an App whose code does not match its header, and with a Core
  Patcher whose code does not.\<close>

definition ex_bad_app_state :: lz_state where
  "ex_bad_app_state = ex_state\<lparr> lz_app := (lz_app ex_state)\<lparr> boot_image_code := [10, 11, 13] \<rparr> \<rparr>"

definition ex_bad_cpatcher_state :: lz_state where
  "ex_bad_cpatcher_state =
     ex_state\<lparr> lz_cpatcher := (lz_cpatcher ex_state)\<lparr> boot_image_code := [31] \<rparr> \<rparr>"

text \<open>The example with the stored metadata of the App never written, and the example
  with an erased staging area and the stored metadata of the Update Downloader never
  written.\<close>

definition ex_erased_app_meta_state :: lz_state where
  "ex_erased_app_meta_state = ex_state\<lparr> app_meta := ex_erased_meta \<rparr>"

definition ex_erased_ud_meta_state :: lz_state where
  "ex_erased_ud_meta_state = ex_erased_state\<lparr> ud_meta := ex_erased_meta \<rparr>"

section \<open>Properties\<close>

lemma memcmp_eq_0: "memcmp a b n = 0 \<longleftrightarrow> take n a = take n b"
  by (simp add: memcmp_def)

lemma lz_ecdsa_verify_pub_pem_eq_0:
  "lz_ecdsa_verify_pub_pem env data key sg = 0 \<longleftrightarrow>
     fst (mbedtls_pk_parse_public_key env
            (take (strnlen key (MAX_PUB_ECP_PEM_BYTES env - 1) + 1) key)) = 0 \<and>
     fst (lz_sha256 env data) = 0 \<and>
     mbedtls_pk_verify env
       (snd (mbedtls_pk_parse_public_key env
              (take (strnlen key (MAX_PUB_ECP_PEM_BYTES env - 1) + 1) key)))
       (take SHA256_DIGEST_LENGTH (snd (lz_sha256 env data)))
       (take (unat (sig_length sg)) (sig sg)) = 0"
  by (auto simp: lz_ecdsa_verify_pub_pem_def split: prod.splits)

subsection \<open>Staging element headers\<close>

lemma verify_staging_elem_hdr_sig_cases:
  "lz_core_verify_staging_elem_hdr_sig env k hdr payload =
     (if fst (lz_sha256 env (take (unat (payload_size (hdr_content hdr))) payload)) = 0 \<and>
         take SHA256_DIGEST_LENGTH
           (snd (lz_sha256 env (take (unat (payload_size (hdr_content hdr))) payload))) =
         take SHA256_DIGEST_LENGTH (hdr_digest (hdr_content hdr)) \<and>
         lz_ecdsa_verify_pub_pem env (auth_hdr_content_bytes env (hdr_content hdr)) k
           (hdr_signature hdr) = 0
      then LZ_SUCCESS env else LZ_ERROR env)"
  by (simp add: lz_core_verify_staging_elem_hdr_sig_def memcmp_def split: prod.splits)

lemma verify_staging_elem_hdr_cases:
  "lz_core_verify_staging_elem_hdr env k hdr payload nonce =
     (if spec_staging_record_ok env k hdr payload nonce \<or>
         (LZ_ERROR env = LZ_SUCCESS env)
      then LZ_SUCCESS env else LZ_ERROR env)"
  by (auto simp: lz_core_verify_staging_elem_hdr_def spec_staging_record_ok_def
      verify_staging_elem_hdr_sig_cases memcmp_def word_greater_zero_iff)

text \<open>
  Claim C1. Provided the two enumerators differ, \<^verbatim>\<open>lz_core_verify_staging_elem_hdr\<close>
  returns \<^verbatim>\<open>LZ_SUCCESS\<close> exactly when the five conditions hold (magic, payload size
  above 0, digest of the payload, nonce, signature under the management key), and a
  record that fails one of them gets \<^verbatim>\<open>LZ_ERROR\<close>.
\<close>

theorem staging_header_accepted_iff:
  assumes "LZ_ERROR env \<noteq> LZ_SUCCESS env"
  shows "(lz_core_verify_staging_elem_hdr env k hdr payload nonce = LZ_SUCCESS env \<longleftrightarrow>
            spec_staging_record_ok env k hdr payload nonce) \<and>
         (\<not> spec_staging_record_ok env k hdr payload nonce \<longrightarrow>
            lz_core_verify_staging_elem_hdr env k hdr payload nonce = LZ_ERROR env)"
  using assms by (simp add: verify_staging_elem_hdr_cases)

text \<open>The example: the boot ticket is accepted for the current nonce and rejected for
  another one.\<close>

lemma ex_codes: "LZ_ERROR ex_env \<noteq> LZ_SUCCESS ex_env"
  by (simp add: ex_env_def)

theorem staging_header_accepted_iff_witness:
  "LZ_ERROR ex_env \<noteq> LZ_SUCCESS ex_env \<and>
   spec_staging_record_ok ex_env ex_key (ex_ticket BOOT_TICKET [1, 0, 0, 0] ex_nonce)
     [1, 0, 0, 0] ex_nonce \<and>
   lz_core_verify_staging_elem_hdr ex_env ex_key (ex_ticket BOOT_TICKET [1, 0, 0, 0] ex_nonce)
     [1, 0, 0, 0] ex_nonce = LZ_SUCCESS ex_env \<and>
   \<not> spec_staging_record_ok ex_env ex_key (ex_ticket BOOT_TICKET [1, 0, 0, 0] ex_nonce)
     [1, 0, 0, 0] (replicate 16 8) \<and>
   lz_core_verify_staging_elem_hdr ex_env ex_key (ex_ticket BOOT_TICKET [1, 0, 0, 0] ex_nonce)
     [1, 0, 0, 0] (replicate 16 8) = LZ_ERROR ex_env"
proof -
  have ok: "spec_staging_record_ok ex_env ex_key (ex_ticket BOOT_TICKET [1, 0, 0, 0] ex_nonce)
     [1, 0, 0, 0] ex_nonce"
    by code_simp
  have bad: "\<not> spec_staging_record_ok ex_env ex_key (ex_ticket BOOT_TICKET [1, 0, 0, 0] ex_nonce)
     [1, 0, 0, 0] (replicate 16 8)"
    by code_simp
  show ?thesis
    using ok bad ex_codes
      staging_header_accepted_iff [OF ex_codes, of ex_key "ex_ticket BOOT_TICKET [1, 0, 0, 0] ex_nonce"
        "[1, 0, 0, 0]" ex_nonce]
      staging_header_accepted_iff [OF ex_codes, of ex_key "ex_ticket BOOT_TICKET [1, 0, 0, 0] ex_nonce"
        "[1, 0, 0, 0]" "replicate 16 8"]
    by simp
qed

subsection \<open>Image verification\<close>

lemma verify_image_cases:
  "lz_core_verify_image env k ha h ca code meta out =
     (if spec_image_ok env k ha h ca code meta then
        (LZ_SUCCESS env,
         map_option (\<lambda>buf. memcpy buf
            (snd (lz_sha256 env (take (unat (img_size (img_content h))) code)))
            SHA256_DIGEST_LENGTH) out)
      else if spec_image_ok env k ha h ca code
                (meta\<lparr> meta_magic := LZ_MAGIC env, lastVersion := 0, last_issue_time := 0 \<rparr>)
        \<and> meta_magic meta \<noteq> LZ_MAGIC env
        then (C_false, out)
      else (LZ_ERROR env, out))"
  by (cases out)
     (auto simp: lz_core_verify_image_def spec_image_ok_def memcmp_def not_le
           split: prod.splits)

lemma verify_image_accepts_only_newer:
  assumes "LZ_ERROR env \<noteq> LZ_SUCCESS env" and "C_false \<noteq> LZ_SUCCESS env"
    and "fst (lz_core_verify_image env k ha h ca code meta out) = LZ_SUCCESS env"
  shows "lastVersion meta \<le> img_version (img_content h) \<and>
         last_issue_time meta \<le> img_issue_time (img_content h)"
  using assms by (auto simp: verify_image_cases spec_image_ok_def split: if_splits)

lemma verify_image_invalid_meta_returns_false:
  assumes "spec_image_ok env k ha h ca code
             (meta\<lparr> meta_magic := LZ_MAGIC env, lastVersion := 0, last_issue_time := 0 \<rparr>)"
    and "meta_magic meta \<noteq> LZ_MAGIC env"
  shows "lz_core_verify_image env k ha h ca code meta out = (C_false, out)"
  using assms by (simp add: verify_image_cases spec_image_ok_def)

text \<open>
  Claim C2. The code at a failing input: an image whose magic, layout, digest and
  signature are right, with stored metadata whose magic is not \<^verbatim>\<open>LZ_MAGIC\<close> (erased
  flash) and whose version and issue time are above the image's. The function returns
  \<^verbatim>\<open>false\<close>, that is 0, which is \<^verbatim>\<open>LZ_SUCCESS\<close> in the example environment: the
  image is accepted although its version and issue time are below the stored ones.
  (\<open>verify_image_accepts_only_newer\<close> above is the claim for an environment in which
  \<^verbatim>\<open>LZ_SUCCESS\<close> is not 0.)
\<close>

theorem verify_image_invalid_meta_accepts_rollback:
  "fst (lz_core_verify_image ex_env ex_key 0x1000
          (boot_image_hdr (ex_image 0x1000 [10, 11, 12] 0x10002 150)) 0x1010 [10, 11, 12]
          ex_erased_meta (Some (replicate 32 170))) = C_false \<and>
   C_false = LZ_SUCCESS ex_env \<and>
   img_version (img_content (boot_image_hdr (ex_image 0x1000 [10, 11, 12] 0x10002 150)))
     < lastVersion ex_erased_meta \<and>
   img_issue_time (img_content (boot_image_hdr (ex_image 0x1000 [10, 11, 12] 0x10002 150)))
     < last_issue_time ex_erased_meta"
  by code_simp

text \<open>
  Claim C9. \<^verbatim>\<open>lz_core_verify_image\<close> writes the digest it computed to the output
  buffer exactly when all six checks pass: then it returns \<^verbatim>\<open>LZ_SUCCESS\<close> and a
  non-\<^verbatim>\<open>NULL\<close> buffer holds, in its first 32 bytes, the SHA-256 of the first
  \<^verbatim>\<open>size\<close> bytes of the code. When a check fails, and whenever the result is not
  \<^verbatim>\<open>LZ_SUCCESS\<close>, the buffer is as it was. Where \<^verbatim>\<open>LZ_SUCCESS\<close> differs from
  \<^verbatim>\<open>LZ_ERROR\<close> and from 0, the result \<^verbatim>\<open>LZ_SUCCESS\<close> alone tells that the
  buffer holds the digest.
\<close>

theorem verify_image_digest_out:
  "(spec_image_ok env k ha h ca code meta \<longrightarrow>
      lz_core_verify_image env k ha h ca code meta out =
        (LZ_SUCCESS env,
         map_option (\<lambda>buf. memcpy buf
            (snd (lz_sha256 env (take (unat (img_size (img_content h))) code)))
            SHA256_DIGEST_LENGTH) out)) \<and>
   (\<not> spec_image_ok env k ha h ca code meta \<longrightarrow>
      snd (lz_core_verify_image env k ha h ca code meta out) = out) \<and>
   (fst (lz_core_verify_image env k ha h ca code meta out) \<noteq> LZ_SUCCESS env \<longrightarrow>
      snd (lz_core_verify_image env k ha h ca code meta out) = out) \<and>
   (LZ_ERROR env \<noteq> LZ_SUCCESS env \<and> C_false \<noteq> LZ_SUCCESS env \<and>
    fst (lz_core_verify_image env k ha h ca code meta out) = LZ_SUCCESS env \<longrightarrow>
      snd (lz_core_verify_image env k ha h ca code meta out) =
        map_option (\<lambda>buf. memcpy buf
            (snd (lz_sha256 env (take (unat (img_size (img_content h))) code)))
            SHA256_DIGEST_LENGTH) out)"
  by (auto simp: verify_image_cases)

text \<open>The example: the App image is verified and its digest written; with a changed
  byte of code it is rejected and the buffer keeps its content.\<close>

theorem verify_image_digest_out_witness:
  "spec_image_ok ex_env ex_key 0x1000 (boot_image_hdr (ex_image 0x1000 [10, 11, 12] 0x10002 150))
     0x1010 [10, 11, 12] (ex_meta 0x10000 100) \<and>
   lz_core_verify_image ex_env ex_key 0x1000
     (boot_image_hdr (ex_image 0x1000 [10, 11, 12] 0x10002 150)) 0x1010 [10, 11, 12]
     (ex_meta 0x10000 100) (Some (replicate 32 170)) =
     (LZ_SUCCESS ex_env, Some ([10, 11, 12] @ replicate 29 0)) \<and>
   \<not> spec_image_ok ex_env ex_key 0x1000
     (boot_image_hdr (ex_image 0x1000 [10, 11, 12] 0x10002 150))
     0x1010 [10, 11, 13] (ex_meta 0x10000 100) \<and>
   lz_core_verify_image ex_env ex_key 0x1000
     (boot_image_hdr (ex_image 0x1000 [10, 11, 12] 0x10002 150)) 0x1010 [10, 11, 13]
     (ex_meta 0x10000 100) (Some (replicate 32 170)) =
     (LZ_ERROR ex_env, Some (replicate 32 170))"
proof -
  let ?h = "boot_image_hdr (ex_image 0x1000 [10, 11, 12] 0x10002 150)"
  have ok: "spec_image_ok ex_env ex_key 0x1000 ?h 0x1010 [10, 11, 12] (ex_meta 0x10000 100)"
    by code_simp
  have bad: "\<not> spec_image_ok ex_env ex_key 0x1000 ?h 0x1010 [10, 11, 13] (ex_meta 0x10000 100)"
    by code_simp
  have sha: "map_option (\<lambda>buf. memcpy buf
            (snd (lz_sha256 ex_env (take (unat (img_size (img_content ?h))) [10, 11, 12])))
            SHA256_DIGEST_LENGTH) (Some (replicate 32 170)) = Some ([10, 11, 12] @ replicate 29 0)"
    by code_simp
  have err: "fst (lz_core_verify_image ex_env ex_key 0x1000 ?h 0x1010 [10, 11, 13]
     (ex_meta 0x10000 100) (Some (replicate 32 170))) = LZ_ERROR ex_env"
    by code_simp
  have a: "lz_core_verify_image ex_env ex_key 0x1000 ?h 0x1010 [10, 11, 12]
     (ex_meta 0x10000 100) (Some (replicate 32 170)) =
     (LZ_SUCCESS ex_env, Some ([10, 11, 12] @ replicate 29 0))"
    using verify_image_digest_out [where env = ex_env and k = ex_key and ha = "0x1000"
        and h = "?h" and ca = "0x1010" and code = "[10, 11, 12]" and meta = "ex_meta 0x10000 100"
        and out = "Some (replicate 32 170)"] ok sha
    by simp
  have b: "snd (lz_core_verify_image ex_env ex_key 0x1000 ?h 0x1010 [10, 11, 13]
     (ex_meta 0x10000 100) (Some (replicate 32 170))) = Some (replicate 32 170)"
    using verify_image_digest_out [where env = ex_env and k = ex_key and ha = "0x1000"
        and h = "?h" and ca = "0x1010" and code = "[10, 11, 13]" and meta = "ex_meta 0x10000 100"
        and out = "Some (replicate 32 170)"] bad
    by blast
  from err b have c: "lz_core_verify_image ex_env ex_key 0x1000 ?h 0x1010 [10, 11, 13]
     (ex_meta 0x10000 100) (Some (replicate 32 170)) = (LZ_ERROR ex_env, Some (replicate 32 170))"
    by (simp add: prod_eq_iff)
  from ok a bad c show ?thesis by blast
qed

subsection \<open>AliasID derivation\<close>

lemma derive_alias_id_keypair_take:
  "lz_core_derive_alias_id_keypair env digest =
     lz_core_derive_alias_id_keypair env (take 4 digest)"
  by (simp add: lz_core_derive_alias_id_keypair_def sizeof_pointer_def)

text \<open>
  Claim C6. The code on two digests that agree in their first four bytes and differ
  anywhere after: \<^verbatim>\<open>lz_core_derive_alias_id_keypair\<close> gives the same result, since
  the seed it passes on is \<^verbatim>\<open>sizeof(digest)\<close> bytes long, the size of a pointer, and
  not the 32 bytes of the digest.
\<close>

theorem derive_alias_id_keypair_first_four_bytes:
  "lz_core_derive_alias_id_keypair env (b0 # b1 # b2 # b3 # rest) =
     lz_core_derive_alias_id_keypair env (b0 # b1 # b2 # b3 # rest')"
  by (simp add: lz_core_derive_alias_id_keypair_def sizeof_pointer_def)

subsection \<open>Deferral time\<close>

lemma get_deferral_time_caller_variable:
  "snd (lz_get_deferral_time env s d) = d"
  by (simp add: lz_get_deferral_time_def Let_def split: prod.splits)

lemma get_deferral_time_result:
  "fst (lz_get_deferral_time env s d) =
     (if lz_has_valid_staging_element env s DEFERRAL_TICKET = LZ_SUCCESS env
      then fst (lz_get_staging_elem_content env s DEFERRAL_TICKET)
      else lz_has_valid_staging_element env s DEFERRAL_TICKET)"
  by (simp add: lz_get_deferral_time_def Let_def split: prod.splits)

lemma run_deferral_default:
  "lz_has_valid_staging_element env s DEFERRAL_TICKET \<noteq> LZ_SUCCESS env \<Longrightarrow>
     lz_core_run_deferral env s d = DEFAULT_WDT_TIMOUT_s env"
  by (simp add: lz_core_run_deferral_def lz_get_deferral_time_def Let_def)

text \<open>
  Claim C8. The code at a failing input: the staging area of the example holds a valid
  deferral ticket whose payload is 3600. \<^verbatim>\<open>lz_get_deferral_time\<close> returns
  \<^verbatim>\<open>LZ_SUCCESS\<close> and the caller's variable keeps the value it had (here the
  pattern 0xAAAAAAAA of an uninitialised local), which \<^verbatim>\<open>lz_core_run\<close> then takes as
  the deferral time.
\<close>

theorem get_deferral_time_ignores_ticket:
  "lz_has_valid_staging_element ex_env ex_state DEFERRAL_TICKET = LZ_SUCCESS ex_env \<and>
   fst (lz_get_staging_hdr ex_env (staging_area ex_state) DEFERRAL_TICKET
          (bp_cur_nonce (lz_core_boot_params ex_state))) = LZ_SUCCESS ex_env \<and>
   take 4 (bytes_at (staging_area ex_state)
          (snd (lz_get_staging_hdr ex_env (staging_area ex_state) DEFERRAL_TICKET
                 (bp_cur_nonce (lz_core_boot_params ex_state))) + sizeof_lz_auth_hdr_t ex_env))
     = [16, 14, 0, 0] \<and>
   lz_get_deferral_time ex_env ex_state 0xAAAAAAAA = (LZ_SUCCESS ex_env, 0xAAAAAAAA) \<and>
   lz_core_run_deferral ex_env ex_state 0xAAAAAAAA = 0xAAAAAAAA"
  by code_simp

subsection \<open>Walking the staging area\<close>

lemma num_staging_elems_loop_stuck:
  assumes "0 < sizeof_staging_area_content env"
    and "hdr_magic (hdr_content (hdr_at sa 0)) = LZ_MAGIC env"
    and "sizeof_lz_auth_hdr_t env + payload_size (hdr_content (hdr_at sa 0)) = 0"
  shows "lz_get_num_staging_elems_loop env sa 0 n = None"
proof (rule ccontr)
  assume "lz_get_num_staging_elems_loop env sa 0 n \<noteq> None"
  then obtain y where y: "lz_get_num_staging_elems_loop env sa 0 n = Some y"
    by auto
  have "\<not> (env = env \<and> sa = sa \<and> (0::u32) = 0)"
  proof (rule lz_get_num_staging_elems_loop.raw_induct
      [where P = "\<lambda>e a c m z. \<not> (e = env \<and> a = sa \<and> c = 0)", OF _ y])
    fix f e a c m z
    assume IH: "\<And>a c m b y. f a c m b = Some y \<Longrightarrow> \<not> (a = env \<and> c = sa \<and> m = 0)"
      and body: "(if c < sizeof_staging_area_content e
           then if hdr_magic (hdr_content (hdr_at a c)) \<noteq> LZ_MAGIC e
                then Some m
                else f e a (c + (sizeof_lz_auth_hdr_t e + payload_size (hdr_content (hdr_at a c))))
                      (m + 1)
           else Some m) = Some z"
    show "\<not> (e = env \<and> a = sa \<and> c = 0)"
    proof
      assume "e = env \<and> a = sa \<and> c = 0"
      with body assms have "f env sa 0 (m + 1) = Some z"
        by simp
      from IH [OF this] show False by simp
    qed
  qed
  then show False by simp
qed

text \<open>
  Claim C10. The code at a failing input: the first header has the magic and a
  \<^verbatim>\<open>payload_size\<close> of \<open>2^32\<close> minus the size of a header, so the 32-bit cursor
  comes back to 0 and \<^verbatim>\<open>lz_get_num_staging_elems\<close> never returns.
\<close>

theorem num_staging_elems_never_returns:
  "lz_get_num_staging_elems ex_env ex_wrapping_staging_area = None"
proof -
  have "lz_get_num_staging_elems_loop ex_env ex_wrapping_staging_area 0 0 = None"
    by (rule num_staging_elems_loop_stuck)
       (simp_all add: ex_env_def ex_wrapping_staging_area_def ex_ticket_def)
  then show ?thesis by (simp add: lz_get_num_staging_elems_def)
qed

lemma num_staging_elems_no_element:
  "hdr_magic (hdr_content (hdr_at sa 0)) \<noteq> LZ_MAGIC env \<Longrightarrow>
     lz_get_num_staging_elems env sa = Some 0"
  by (simp add: lz_get_num_staging_elems_def lz_get_num_staging_elems_loop.simps)

text \<open>A staging area of 2048 bytes filled with 256 headers that carry the magic and no
  payload: the count is returned as 0.\<close>

lemma num_staging_elems_count_wraps:
  "lz_get_num_staging_elems (ex_env\<lparr> sizeof_staging_area_content := 2048 \<rparr>)
     \<lparr> hdr_at = (\<lambda>c. ex_ticket BOOT_TICKET [] ex_nonce), bytes_at = (\<lambda>c. []) \<rparr> = Some 0"
  by code_simp

subsection \<open>Parameters for the next layer\<close>

lemma memcpy_zero_buffer: "memcpy (replicate n 0) src n = take n src"
  by (simp add: memcpy_def)

lemma provide_params_common_fields:
  "cur_nonce (provide_params_common env s m akp) = replicate (LEN_NONCE env) 0"
  "dev_auth (provide_params_common env s m akp) = replicate (sizeof_dev_auth env) 0"
  "dev_reassociation_necessary (provide_params_common env s m akp) = False"
  "firmware_update_necessary (provide_params_common env s m akp) = False"
  "next_nonce (provide_params_common env s m akp) =
     (if m = LZ_CPATCHER then replicate (LEN_NONCE env) 0
      else take (LEN_NONCE env) (bp_next_nonce (lz_core_boot_params s)))"
  by (cases m; simp add: provide_params_common_def img_boot_params_info_zero_def Let_def
        memcpy_zero_buffer)+

lemma provide_params_finish_success:
  assumes "provide_params_finish env s m akp dkp cpy = (LZ_SUCCESS env, s')"
    and "LZ_ERROR env \<noteq> LZ_SUCCESS env"
  shows "\<exists>p. lz_img_boot_params s' = Some p \<and> cur_nonce p = cur_nonce cpy \<and>
           dev_auth p = dev_auth cpy \<and> next_nonce p = next_nonce cpy \<and>
           dev_reassociation_necessary p = dev_reassociation_necessary cpy \<and>
           firmware_update_necessary p = firmware_update_necessary cpy"
  using assms
  by (auto simp: provide_params_finish_def Let_def split: prod.splits if_splits)

text \<open>
  Claim C5. When \<^verbatim>\<open>lz_core_provide_params_ram\<close> succeeds it has written the
  parameter block. For the App, \<open>cur_nonce\<close> and \<open>dev_auth\<close> are zero and both
  flags are clear; for the Update Downloader and the Core Patcher they hold the current
  nonce, the derived \<open>dev_auth\<close> and the two flags handed in. \<open>next_nonce\<close> is
  zero for the Core Patcher and the next nonce for the other two.
\<close>

theorem handoff_params_need_to_know:
  assumes "lz_core_provide_params_ram env s boot_mode upd fw akp dkp = (LZ_SUCCESS env, s')"
    and "LZ_ERROR env \<noteq> LZ_SUCCESS env"
  shows "\<exists>p. lz_img_boot_params s' = Some p \<and>
    (boot_mode = APP \<longrightarrow>
       cur_nonce p = replicate (LEN_NONCE env) 0 \<and>
       dev_auth p = replicate (sizeof_dev_auth env) 0 \<and>
       \<not> dev_reassociation_necessary p \<and> \<not> firmware_update_necessary p) \<and>
    (boot_mode \<noteq> APP \<longrightarrow>
       cur_nonce p = take (LEN_NONCE env) (bp_cur_nonce (lz_core_boot_params s)) \<and>
       dev_auth p = snd (lz_core_derive_dev_auth env s (replicate (sizeof_dev_auth env) 0)
                           (sizeof_dev_auth env) dkp) \<and>
       dev_reassociation_necessary p = upd \<and> firmware_update_necessary p = fw) \<and>
    (boot_mode = LZ_CPATCHER \<longrightarrow> next_nonce p = replicate (LEN_NONCE env) 0) \<and>
    (boot_mode \<noteq> LZ_CPATCHER \<longrightarrow>
       next_nonce p = take (LEN_NONCE env) (bp_next_nonce (lz_core_boot_params s)))"
proof (cases "boot_mode = APP")
  case True
  with assms(1) have "provide_params_finish env s boot_mode akp dkp
      (provide_params_common env s boot_mode akp) = (LZ_SUCCESS env, s')"
    by (simp add: lz_core_provide_params_ram_def)
  from provide_params_finish_success [OF this assms(2)] True show ?thesis
    by (auto simp: provide_params_common_fields)
next
  case False
  then have m: "boot_mode = LZ_UDOWNLOADER \<or> boot_mode = LZ_CPATCHER"
    by (cases boot_mode) auto
  let ?cpy = "(provide_params_common env s boot_mode akp)
      \<lparr> dev_uuid := memcpy (dev_uuid (provide_params_common env s boot_mode akp))
                     (bp_dev_uuid (lz_core_boot_params s)) (LEN_UUID_V4_BIN env),
        cur_nonce := memcpy (cur_nonce (provide_params_common env s boot_mode akp))
                     (bp_cur_nonce (lz_core_boot_params s)) (LEN_NONCE env) \<rparr>"
  let ?da = "lz_core_derive_dev_auth env s (replicate (sizeof_dev_auth env) 0)
               (sizeof_dev_auth env) dkp"
  from assms(1) m have fin: "provide_params_finish env s boot_mode akp dkp
      (?cpy\<lparr> dev_auth := snd ?da, dev_reassociation_necessary := upd,
              firmware_update_necessary := fw \<rparr>) = (LZ_SUCCESS env, s')"
    using assms(2)
    by (auto simp: lz_core_provide_params_ram_def Let_def provide_params_common_fields
        split: prod.splits if_splits)
  from provide_params_finish_success [OF fin assms(2)] False show ?thesis
    by (auto simp: provide_params_common_fields memcpy_zero_buffer)
qed

text \<open>The example, for the App and for the Core Patcher.\<close>

theorem handoff_params_need_to_know_witness:
  "LZ_ERROR ex_env \<noteq> LZ_SUCCESS ex_env \<and>
   (\<exists>s' p. lz_core_provide_params_ram ex_env ex_state APP True True [1, 2, 3, 4] [5, 6, 7, 8]
              = (LZ_SUCCESS ex_env, s') \<and>
      lz_img_boot_params s' = Some p \<and>
      cur_nonce p = replicate 16 0 \<and> dev_auth p = replicate 32 0 \<and>
      \<not> dev_reassociation_necessary p \<and> \<not> firmware_update_necessary p \<and>
      next_nonce p = replicate 16 9) \<and>
   (\<exists>s' p. lz_core_provide_params_ram ex_env ex_state LZ_CPATCHER True True [1, 2, 3, 4] [5, 6, 7, 8]
              = (LZ_SUCCESS ex_env, s') \<and>
      lz_img_boot_params s' = Some p \<and>
      cur_nonce p = replicate 16 7 \<and> dev_reassociation_necessary p \<and>
      firmware_update_necessary p \<and> next_nonce p = replicate 16 0)"
proof -
  have a: "fst (lz_core_provide_params_ram ex_env ex_state APP True True [1, 2, 3, 4] [5, 6, 7, 8])
      = LZ_SUCCESS ex_env"
    by code_simp
  have b: "fst (lz_core_provide_params_ram ex_env ex_state LZ_CPATCHER True True [1, 2, 3, 4]
      [5, 6, 7, 8]) = LZ_SUCCESS ex_env"
    by code_simp
  have n: "LEN_NONCE ex_env = 16" "sizeof_dev_auth ex_env = 32"
    "bp_cur_nonce (lz_core_boot_params ex_state) = replicate 16 7"
    "bp_next_nonce (lz_core_boot_params ex_state) = replicate 16 9"
    by (simp_all add: ex_env_def ex_state_def ex_nonce_def)
  obtain s1 where s1: "lz_core_provide_params_ram ex_env ex_state APP True True [1, 2, 3, 4]
      [5, 6, 7, 8] = (LZ_SUCCESS ex_env, s1)"
    using a by (metis prod.collapse)
  obtain s2 where s2: "lz_core_provide_params_ram ex_env ex_state LZ_CPATCHER True True
      [1, 2, 3, 4] [5, 6, 7, 8] = (LZ_SUCCESS ex_env, s2)"
    using b by (metis prod.collapse)
  from handoff_params_need_to_know [OF s1 ex_codes] s1 n have c1:
    "\<exists>s' p. lz_core_provide_params_ram ex_env ex_state APP True True [1, 2, 3, 4] [5, 6, 7, 8]
              = (LZ_SUCCESS ex_env, s') \<and>
      lz_img_boot_params s' = Some p \<and>
      cur_nonce p = replicate 16 0 \<and> dev_auth p = replicate 32 0 \<and>
      \<not> dev_reassociation_necessary p \<and> \<not> firmware_update_necessary p \<and>
      next_nonce p = replicate 16 9"
    by auto
  from handoff_params_need_to_know [OF s2 ex_codes] s2 n have c2:
    "\<exists>s' p. lz_core_provide_params_ram ex_env ex_state LZ_CPATCHER True True [1, 2, 3, 4]
              [5, 6, 7, 8] = (LZ_SUCCESS ex_env, s') \<and>
      lz_img_boot_params s' = Some p \<and>
      cur_nonce p = replicate 16 7 \<and> dev_reassociation_necessary p \<and>
      firmware_update_necessary p \<and> next_nonce p = replicate 16 0"
    by auto
  from ex_codes c1 c2 show ?thesis by blast
qed

subsection \<open>Choice of the boot mode\<close>




subsection \<open>Verification of the next layer and handoff\<close>

lemma run_handoff_returned:
  assumes "lz_core_run_handoff env l upd m fw s = Returned (Return_boot_mode m') l' s'"
    and "LZ_ERROR env \<noteq> LZ_SUCCESS env"
  shows "m' = m \<and>
    (\<exists>s1. lz_core_provide_params_ram env s m upd fw
             (snd (lz_core_derive_alias_id_keypair env
                (snd (lz_sha256_two_parts env (l_next_layer_digest l)
                        (lz_priv_key_to_pem env (l_lz_dev_id_keypair l) (l_pem l))))))
             (l_lz_dev_id_keypair l) = (LZ_SUCCESS env, s1) \<and>
           s' = lzport_rng_deinit (lz_awdt_init (l_deferral_time l) s1)) \<and>
    l_lz_dev_id_keypair l' = l_lz_dev_id_keypair l \<and>
    l_pem l' = lz_priv_key_to_pem env (l_lz_dev_id_keypair l) (l_pem l) \<and>
    l_next_layer_digest l' = secure_zero_memory (l_next_layer_digest l) SHA256_DIGEST_LENGTH \<and>
    l_deferral_time l' = 0"
  using assms
  by (auto simp: lz_core_run_handoff_def Let_def split: prod.splits if_splits)

lemma provide_params_ram_flag:
  assumes "lz_core_provide_params_ram env s m upd fw akp dkp = (LZ_SUCCESS env, s')"
    and "LZ_ERROR env \<noteq> LZ_SUCCESS env" and "m \<noteq> APP"
  shows "\<exists>p. lz_img_boot_params s' = Some p \<and> firmware_update_necessary p = fw"
proof -
  from assms(3) have m: "m = LZ_UDOWNLOADER \<or> m = LZ_CPATCHER"
    by (cases m) auto
  with assms(1,2) obtain cpy where
    "provide_params_finish env s m akp dkp cpy = (LZ_SUCCESS env, s')"
    and "firmware_update_necessary cpy = fw"
    by (auto simp: lz_core_provide_params_ram_def Let_def split: prod.splits if_splits)
  with provide_params_finish_success [OF _ assms(2)] show ?thesis
    by metis
qed

lemma run_handoff_flag:
  assumes "lz_core_run_handoff env l upd m fw s = Returned (Return_boot_mode m') l' s'"
    and "LZ_ERROR env \<noteq> LZ_SUCCESS env" and "m \<noteq> APP"
  shows "\<exists>p. lz_img_boot_params s' = Some p \<and> firmware_update_necessary p = fw"
proof -
  from run_handoff_returned [OF assms(1,2)] obtain s1 akp where
    s1: "lz_core_provide_params_ram env s m upd fw akp (l_lz_dev_id_keypair l)
           = (LZ_SUCCESS env, s1)"
    and s': "s' = lzport_rng_deinit (lz_awdt_init (l_deferral_time l) s1)"
    by blast
  from provide_params_ram_flag [OF s1 assms(2,3)] s' show ?thesis
    by (auto simp: lzport_rng_deinit_def lz_awdt_init_def)
qed

text \<open>
  What \<^verbatim>\<open>lz_core_run\<close> does with a return code of \<^verbatim>\<open>lz_core_verify_next_layer\<close>
  that is not \<^verbatim>\<open>LZ_SUCCESS\<close>: for the App, the run goes on as the handoff to the
  Update Downloader with \<^verbatim>\<open>firmware_update_necessary\<close> set, and if it returns a boot
  mode, that mode is the Update Downloader and the parameter block written has the flag
  set; for the Core Patcher and the Update Downloader, the run ends in the error handler
  with the memory untouched (no parameter block, no watchdog).
\<close>

lemma run_boot_on_failure_code:
  assumes "fst (lz_core_verify_next_layer env s boot_mode (l_next_layer_digest l))
             \<noteq> LZ_SUCCESS env"
    and "LZ_ERROR env \<noteq> LZ_SUCCESS env"
  shows
    "(boot_mode = APP \<longrightarrow>
        lz_core_run_boot env l upd boot_mode s =
          lz_core_run_handoff env
            (l\<lparr> l_deferral_time := lz_core_run_deferral env s (l_deferral_time l),
                l_next_layer_digest :=
                  snd (lz_core_verify_next_layer env s APP (l_next_layer_digest l)) \<rparr>)
            upd LZ_UDOWNLOADER True s \<and>
        (\<forall>m l' s'. lz_core_run_boot env l upd boot_mode s = Returned (Return_boot_mode m) l' s' \<longrightarrow>
           m = LZ_UDOWNLOADER \<and>
           (\<exists>p. lz_img_boot_params s' = Some p \<and> firmware_update_necessary p))) \<and>
     (boot_mode \<noteq> APP \<longrightarrow> lz_core_run_boot env l upd boot_mode s = Error_handler s)"
proof -
  let ?l = "l\<lparr> l_deferral_time := lz_core_run_deferral env s (l_deferral_time l),
                l_next_layer_digest :=
                  snd (lz_core_verify_next_layer env s APP (l_next_layer_digest l)) \<rparr>"
  have eq: "lz_core_run_boot env l upd boot_mode s =
      lz_core_run_handoff env ?l upd LZ_UDOWNLOADER True s" if "boot_mode = APP"
    using that assms(1)
    by (auto simp: lz_core_run_boot_def lz_core_run_verify_def Let_def split: prod.splits)
  have ret: "m = LZ_UDOWNLOADER \<and>
      (\<exists>p. lz_img_boot_params s' = Some p \<and> firmware_update_necessary p)"
    if "boot_mode = APP"
      and "lz_core_run_boot env l upd boot_mode s = Returned (Return_boot_mode m) l' s'"
    for m l' s'
  proof -
    from that eq have h: "lz_core_run_handoff env ?l upd LZ_UDOWNLOADER True s =
        Returned (Return_boot_mode m) l' s'"
      by simp
    from run_handoff_returned [OF h assms(2)] run_handoff_flag [OF h assms(2)]
    show ?thesis by simp
  qed
  have halt: "lz_core_run_boot env l upd boot_mode s = Error_handler s" if "boot_mode \<noteq> APP"
    using that assms(1)
    by (auto simp: lz_core_run_boot_def lz_core_run_verify_def Let_def split: prod.splits)
  from eq ret halt show ?thesis by blast
qed

text \<open>The example with a changed byte in the App's code, and in the Core Patcher's.\<close>

lemma run_boot_on_failure_code_example:
  "LZ_ERROR ex_env \<noteq> LZ_SUCCESS ex_env \<and>
   fst (lz_core_verify_next_layer ex_env ex_bad_app_state APP (l_next_layer_digest ex_stack))
     \<noteq> LZ_SUCCESS ex_env \<and>
   (\<exists>l' s' p. lz_core_run_boot ex_env ex_stack False APP ex_bad_app_state =
        Returned (Return_boot_mode LZ_UDOWNLOADER) l' s' \<and>
      lz_img_boot_params s' = Some p \<and> firmware_update_necessary p) \<and>
   fst (lz_core_verify_next_layer ex_env ex_bad_cpatcher_state LZ_CPATCHER
          (l_next_layer_digest ex_stack)) \<noteq> LZ_SUCCESS ex_env \<and>
   lz_core_run_boot ex_env ex_stack False LZ_CPATCHER ex_bad_cpatcher_state =
     Error_handler ex_bad_cpatcher_state"
proof -
  have fa: "fst (lz_core_verify_next_layer ex_env ex_bad_app_state APP
      (l_next_layer_digest ex_stack)) \<noteq> LZ_SUCCESS ex_env"
    by code_simp
  have fc: "fst (lz_core_verify_next_layer ex_env ex_bad_cpatcher_state LZ_CPATCHER
      (l_next_layer_digest ex_stack)) \<noteq> LZ_SUCCESS ex_env"
    by code_simp
  have r: "case lz_core_run_boot ex_env ex_stack False APP ex_bad_app_state of
      Returned (Return_boot_mode m) l' s' \<Rightarrow> True | _ \<Rightarrow> False"
    by code_simp
  then obtain m l' s' where ret: "lz_core_run_boot ex_env ex_stack False APP ex_bad_app_state =
      Returned (Return_boot_mode m) l' s'"
    by (auto split: lz_core_run_result.splits lz_core_run_return.splits)
  from run_boot_on_failure_code [OF fa ex_codes, of False] ret
  have a: "\<exists>l' s' p. lz_core_run_boot ex_env ex_stack False APP ex_bad_app_state =
        Returned (Return_boot_mode LZ_UDOWNLOADER) l' s' \<and>
      lz_img_boot_params s' = Some p \<and> firmware_update_necessary p"
    by auto
  from run_boot_on_failure_code [OF fc ex_codes, of False]
  have b: "lz_core_run_boot ex_env ex_stack False LZ_CPATCHER ex_bad_cpatcher_state =
     Error_handler ex_bad_cpatcher_state"
    by simp
  from ex_codes fa a fc b show ?thesis by blast
qed

text \<open>The return code of \<^verbatim>\<open>lz_core_verify_next_layer\<close> against the six checks: an
  image that fails one of them gets \<^verbatim>\<open>LZ_ERROR\<close>, but for the check of the metadata
  magic, which gets \<^verbatim>\<open>false\<close>.\<close>

lemma verify_next_layer_code:
  "fst (lz_core_verify_next_layer env s boot_mode nld) = LZ_SUCCESS env \<or>
   fst (lz_core_verify_next_layer env s boot_mode nld) = LZ_ERROR env \<or>
   fst (lz_core_verify_next_layer env s boot_mode nld) = C_false"
  by (cases boot_mode)
     (auto simp: lz_core_verify_next_layer_def lz_core_get_next_layer_addrs_def
        verify_image_cases split: prod.splits)

lemma verify_next_layer_success:
  assumes "LZ_ERROR env \<noteq> LZ_SUCCESS env" and "C_false \<noteq> LZ_SUCCESS env"
  shows "fst (lz_core_verify_next_layer env s boot_mode nld) = LZ_SUCCESS env \<longleftrightarrow>
           spec_next_layer_ok env s boot_mode"
  using assms
  by (cases boot_mode)
     (auto simp: lz_core_verify_next_layer_def lz_core_get_next_layer_addrs_def
        spec_next_layer_ok_def verify_image_cases split: prod.splits)

text \<open>So where \<^verbatim>\<open>LZ_SUCCESS\<close> is not 0, every image that fails a check is handled as
  the lemma above says.\<close>

lemma run_boot_on_failed_check:
  assumes "\<not> spec_next_layer_ok env s boot_mode"
    and "LZ_ERROR env \<noteq> LZ_SUCCESS env" and "C_false \<noteq> LZ_SUCCESS env"
  shows
    "(boot_mode = APP \<longrightarrow>
        (\<forall>m l' s'. lz_core_run_boot env l upd boot_mode s = Returned (Return_boot_mode m) l' s' \<longrightarrow>
           m = LZ_UDOWNLOADER \<and>
           (\<exists>p. lz_img_boot_params s' = Some p \<and> firmware_update_necessary p))) \<and>
     (boot_mode \<noteq> APP \<longrightarrow> lz_core_run_boot env l upd boot_mode s = Error_handler s)"
proof -
  from assms verify_next_layer_success [OF assms(2,3), of s boot_mode "l_next_layer_digest l"]
  have "fst (lz_core_verify_next_layer env s boot_mode (l_next_layer_digest l))
          \<noteq> LZ_SUCCESS env"
    by simp
  from run_boot_on_failure_code [OF this assms(2), of upd] show ?thesis
    by blast
qed

text \<open>
  Claim C4. The code at two failing inputs, in the example environment, where
  \<^verbatim>\<open>LZ_SUCCESS\<close> is 0. First, a device with a valid boot ticket whose App image fails
  verification because its stored metadata has no magic: \<^verbatim>\<open>lz_core_verify_image\<close>
  leaves by \<^verbatim>\<open>return false\<close>, the run takes that as success and returns the boot
  mode \<^verbatim>\<open>APP\<close>, with \<^verbatim>\<open>firmware_update_necessary\<close> clear in the parameter block
  and the digest buffer never written. Second, a device with an empty staging area
  whose Update Downloader image fails verification in the same way: the run does not end
  in the error handler, it writes the parameter block, arms the watchdog and returns the
  boot mode \<^verbatim>\<open>LZ_UDOWNLOADER\<close>.
\<close>

theorem invalid_meta_next_layer_is_booted:
  "\<not> spec_next_layer_ok ex_env ex_erased_app_meta_state APP \<and>
   lz_core_run_select ex_env ex_erased_app_meta_state =
     Some (Inr (APP, ex_erased_app_meta_state)) \<and>
   lz_core_verify_next_layer ex_env ex_erased_app_meta_state APP (l_next_layer_digest ex_stack)
     = (C_false, l_next_layer_digest ex_stack) \<and>
   C_false = LZ_SUCCESS ex_env \<and>
   (case lz_core_run ex_env ex_stack ex_erased_app_meta_state of
      Some (Returned (Return_boot_mode m) l s) \<Rightarrow>
        m = APP \<and>
        (case lz_img_boot_params s of
           Some p \<Rightarrow> \<not> firmware_update_necessary p
         | None \<Rightarrow> False)
    | _ \<Rightarrow> False) \<and>
   \<not> spec_next_layer_ok ex_env ex_erased_ud_meta_state LZ_UDOWNLOADER \<and>
   lz_core_run_select ex_env ex_erased_ud_meta_state =
     Some (Inr (LZ_UDOWNLOADER, ex_erased_ud_meta_state)) \<and>
   (case lz_core_run ex_env ex_stack ex_erased_ud_meta_state of
      Some (Returned (Return_boot_mode m) l s) \<Rightarrow>
        m = LZ_UDOWNLOADER \<and> lz_img_boot_params s \<noteq> None \<and> awdt s \<noteq> None
    | _ \<Rightarrow> False)"
proof -
  have a: "\<not> spec_next_layer_ok ex_env ex_erased_app_meta_state APP"
    by code_simp
  have b: "lz_core_verify_next_layer ex_env ex_erased_app_meta_state APP
      (l_next_layer_digest ex_stack) = (C_false, l_next_layer_digest ex_stack)"
    by code_simp
  have c: "C_false = LZ_SUCCESS ex_env"
    by (simp add: C_false_def ex_env_def)
  have d: "case lz_core_run ex_env ex_stack ex_erased_app_meta_state of
      Some (Returned (Return_boot_mode m) l s) \<Rightarrow>
        m = APP \<and>
        (case lz_img_boot_params s of
           Some p \<Rightarrow> \<not> firmware_update_necessary p
         | None \<Rightarrow> False)
    | _ \<Rightarrow> False"
    by code_simp
  have e: "\<not> spec_next_layer_ok ex_env ex_erased_ud_meta_state LZ_UDOWNLOADER"
    by code_simp
  have f: "case lz_core_run ex_env ex_stack ex_erased_ud_meta_state of
      Some (Returned (Return_boot_mode m) l s) \<Rightarrow>
        m = LZ_UDOWNLOADER \<and> lz_img_boot_params s \<noteq> None \<and> awdt s \<noteq> None
    | _ \<Rightarrow> False"
    by code_simp
  have m: "hdr_magic (hdr_content (hdr_at (staging_area ex_erased_ud_meta_state) 0))
      \<noteq> LZ_MAGIC ex_env"
    by (simp add: ex_erased_ud_meta_state_def ex_erased_state_def ex_blank_hdr_def ex_env_def)
  then have "lz_get_num_staging_elems ex_env (staging_area ex_erased_ud_meta_state) = Some 0"
    by (rule num_staging_elems_no_element)
  then have g: "lz_core_run_select ex_env ex_erased_ud_meta_state =
     Some (Inr (LZ_UDOWNLOADER, ex_erased_ud_meta_state))"
    by (simp add: lz_core_run_select_def)
  have n: "lz_get_num_staging_elems ex_env (staging_area ex_erased_app_meta_state) = Some 2"
    by code_simp
  have v: "lz_has_valid_staging_element ex_env ex_erased_app_meta_state BOOT_TICKET
      = LZ_SUCCESS ex_env"
    by code_simp
  from n v have h: "lz_core_run_select ex_env ex_erased_app_meta_state =
     Some (Inr (APP, ex_erased_app_meta_state))"
    by (simp add: lz_core_run_select_def ex_env_def)
  from a h b c d e g f show ?thesis by blast
qed

subsection \<open>Clean-up before the return\<close>

lemma run_setup_keypair:
  assumes "lz_core_run_setup env stack s = Inr (l, upd, s1)"
  shows "l_lz_dev_id_keypair l = snd (lz_core_derive_device_id env s)"
  using assms
  by (auto simp: lz_core_run_setup_def Let_def split: prod.splits if_splits sum.splits)

lemma run_first_boot_not_returned: "lz_core_run_first_boot env s \<noteq> Inl (Returned r l s')"
  by (auto simp: lz_core_run_first_boot_def split: prod.splits)

lemma run_later_boot_not_returned: "lz_core_run_later_boot env s \<noteq> Inl (Returned r l s')"
  by (auto simp: lz_core_run_later_boot_def split: prod.splits)

lemma run_setup_not_returned: "lz_core_run_setup env stack s \<noteq> Inl (Returned r l s')"
  using run_first_boot_not_returned [of env s r l s']
    run_later_boot_not_returned [of env s r l s']
  by (auto simp: lz_core_run_setup_def Let_def split: prod.splits if_splits sum.splits)

lemma run_select_not_returned: "lz_core_run_select env s \<noteq> Some (Inl (Returned r l s'))"
  by (auto simp: lz_core_run_select_def Let_def split: prod.splits option.splits)

lemma run_boot_returned:
  assumes "lz_core_run_boot env l upd m s = Returned (Return_boot_mode m') l' s'"
    and "LZ_ERROR env \<noteq> LZ_SUCCESS env"
  shows "l_lz_dev_id_keypair l' = l_lz_dev_id_keypair l \<and>
         l_next_layer_digest l' =
           secure_zero_memory (snd (lz_core_verify_next_layer env s m (l_next_layer_digest l)))
             SHA256_DIGEST_LENGTH \<and>
         l_deferral_time l' = 0"
proof -
  from assms(1) obtain l0 m0 fw where
    h: "lz_core_run_handoff env l0 upd m0 fw s = Returned (Return_boot_mode m') l' s'"
    and k: "l_lz_dev_id_keypair l0 = l_lz_dev_id_keypair l"
    and d: "l_next_layer_digest l0 = snd (lz_core_verify_next_layer env s m (l_next_layer_digest l))"
    by (auto simp: lz_core_run_boot_def lz_core_run_verify_def Let_def
        split: prod.splits if_splits sum.splits)
  from run_handoff_returned [OF h assms(2)] k d show ?thesis by simp
qed

lemma core_run_returned:
  assumes "lz_core_run env stack s = Some (Returned (Return_boot_mode m) l' s')"
    and "LZ_ERROR env \<noteq> LZ_SUCCESS env"
  shows "l_lz_dev_id_keypair l' = snd (lz_core_derive_device_id env s) \<and>
         take SHA256_DIGEST_LENGTH (l_next_layer_digest l') = replicate SHA256_DIGEST_LENGTH 0 \<and>
         l_deferral_time l' = 0"
proof -
  from assms(1) obtain l upd s1 m0 s2 where
    st: "lz_core_run_setup env stack s = Inr (l, upd, s1)"
    and boot: "lz_core_run_boot env l upd m0 s2 = Returned (Return_boot_mode m) l' s'"
    using run_setup_not_returned [of env stack s "Return_boot_mode m" l' s']
      run_select_not_returned [where env = env and r = "Return_boot_mode m" and l = l' and s' = s']
    by (auto simp: lz_core_run_def split: sum.splits prod.splits option.splits)
  from run_boot_returned [OF boot assms(2)] run_setup_keypair [OF st]
  show ?thesis by (simp add: secure_zero_memory_def)
qed



text \<open>
  Claim C7. The code on the example device, whose run returns the boot mode
  \<^verbatim>\<open>APP\<close>: on return the digest buffer and the deferral time are zero, and
  \<^verbatim>\<open>lz_dev_id_keypair\<close> still holds the DeviceID key pair derived from
  \<^verbatim>\<open>cdi_prime\<close>, as does \<^verbatim>\<open>pem\<close> the private key in PEM form. The source marks
  the missing step: \<^verbatim>\<open>// TODO: Set new device id key to 0\<close>.
\<close>

theorem core_run_exit_keeps_device_id_key:
  "(case lz_core_run ex_env ex_stack ex_state of
      Some (Returned (Return_boot_mode m) l s) \<Rightarrow>
        m = APP \<and>
        l_next_layer_digest l = replicate 32 0 \<and>
        l_deferral_time l = 0 \<and>
        l_lz_dev_id_keypair l = snd (lz_core_derive_device_id ex_env ex_state) \<and>
        l_lz_dev_id_keypair l = [1, 2, 3, 4] \<and>
        l_pem l = lz_priv_key_to_pem ex_env [1, 2, 3, 4] (l_pem ex_stack) \<and>
        l_pem l = [1, 2, 3, 4, 170, 170, 170, 170]
    | _ \<Rightarrow> False)"
  by code_simp

end
